theory Spec2Isabelle
  imports Complex_Main
begin

section \<open>Python values used by the parser and the classifier\<close>

text \<open>
  A Python \<open>str\<close> is a sequence of Unicode code points, so a string is a list of
  code points (\<open>nat\<close>); \<open>str ''...''\<close> turns an ASCII literal into one. The five
  currency symbols are the code points U+0024, U+20AC, U+20B9, U+00A3 and U+00A5.

  The character tables are those of the Unicode database of CPython 3.11 (Unicode
  14.0): whitespace is the set of \<open>str.isspace\<close>, which is also the class \<open>\s\<close>; the
  decimal digits are the characters of category Nd, which is the class \<open>\d\<close> and the
  set of digits that \<open>float\<close> and \<open>int\<close> read; the word characters are those of the
  class \<open>\w\<close>.
\<close>

type_synonym pystr = "nat list"

definition str :: "string \<Rightarrow> pystr" where
  "str s = map of_char s"

definition is_space :: "nat \<Rightarrow> bool" where
  "is_space c = ((9 \<le> c \<and> c \<le> 13) \<or> (28 \<le> c \<and> c \<le> 32) \<or> c = 133 \<or> c = 160
     \<or> c = 5760 \<or> (8192 \<le> c \<and> c \<le> 8202) \<or> c = 8232 \<or> c = 8233 \<or> c = 8239
     \<or> c = 8287 \<or> c = 12288)"

text \<open>The decimal digits come in runs of ten, from the digit zero to the digit nine;
  \<open>decimal_zeros\<close> lists the zero of every run outside ASCII.\<close>

definition decimal_zeros :: "nat list" where
  "decimal_zeros =
     [1632, 1776, 1984, 2406, 2534, 2662, 2790, 2918, 3046, 3174, 3302, 3430, 3558,
      3664, 3792, 3872, 4160, 4240, 6112, 6160, 6470, 6608, 6784, 6800, 6992, 7088,
      7232, 7248, 42528, 43216, 43264, 43472, 43504, 43600, 44016, 65296, 66720, 68912,
      69734, 69872, 69942, 70096, 70384, 70736, 70864, 71248, 71360, 71472, 71904,
      72016, 72784, 73040, 73120, 92768, 92864, 93008, 120782, 120792, 120802, 120812,
      120822, 123200, 123632, 125264, 130032]"

fun find_decimal :: "nat list \<Rightarrow> nat \<Rightarrow> nat option" where
  "find_decimal [] c = None"
| "find_decimal (z # zs) c = (if z \<le> c \<and> c \<le> z + 9 then Some (c - z) else find_decimal zs c)"

text \<open>The value of a decimal digit, \<open>None\<close> for any other character.\<close>

definition decimal_value :: "nat \<Rightarrow> nat option" where
  "decimal_value c =
     (if c < 128 then (if 48 \<le> c \<and> c \<le> 57 then Some (c - 48) else None)
      else find_decimal decimal_zeros c)"

definition is_digit :: "nat \<Rightarrow> bool" where
  "is_digit c = (decimal_value c \<noteq> None)"

text \<open>The word characters outside ASCII, as inclusive ranges of code points.\<close>

definition word_ranges :: "(nat \<times> nat) list" where
  "word_ranges =
     [(170, 170), (178, 179), (181, 181), (185, 186), (188, 190), (192, 214), (216,
      246), (248, 705), (710, 721), (736, 740), (748, 748), (750, 750), (880, 884),
      (886, 887), (890, 893), (895, 895), (902, 902), (904, 906), (908, 908), (910,
      929), (931, 1013), (1015, 1153), (1162, 1327), (1329, 1366), (1369, 1369), (1376,
      1416), (1488, 1514), (1519, 1522), (1568, 1610), (1632, 1641), (1646, 1647),
      (1649, 1747), (1749, 1749), (1765, 1766), (1774, 1788), (1791, 1791), (1808,
      1808), (1810, 1839), (1869, 1957), (1969, 1969), (1984, 2026), (2036, 2037),
      (2042, 2042), (2048, 2069), (2074, 2074), (2084, 2084), (2088, 2088), (2112,
      2136), (2144, 2154), (2160, 2183), (2185, 2190), (2208, 2249), (2308, 2361),
      (2365, 2365), (2384, 2384), (2392, 2401), (2406, 2415), (2417, 2432), (2437,
      2444), (2447, 2448), (2451, 2472), (2474, 2480), (2482, 2482), (2486, 2489),
      (2493, 2493), (2510, 2510), (2524, 2525), (2527, 2529), (2534, 2545), (2548,
      2553), (2556, 2556), (2565, 2570), (2575, 2576), (2579, 2600), (2602, 2608),
      (2610, 2611), (2613, 2614), (2616, 2617), (2649, 2652), (2654, 2654), (2662,
      2671), (2674, 2676), (2693, 2701), (2703, 2705), (2707, 2728), (2730, 2736),
      (2738, 2739), (2741, 2745), (2749, 2749), (2768, 2768), (2784, 2785), (2790,
      2799), (2809, 2809), (2821, 2828), (2831, 2832), (2835, 2856), (2858, 2864),
      (2866, 2867), (2869, 2873), (2877, 2877), (2908, 2909), (2911, 2913), (2918,
      2927), (2929, 2935), (2947, 2947), (2949, 2954), (2958, 2960), (2962, 2965),
      (2969, 2970), (2972, 2972), (2974, 2975), (2979, 2980), (2984, 2986), (2990,
      3001), (3024, 3024), (3046, 3058), (3077, 3084), (3086, 3088), (3090, 3112),
      (3114, 3129), (3133, 3133), (3160, 3162), (3165, 3165), (3168, 3169), (3174,
      3183), (3192, 3198), (3200, 3200), (3205, 3212), (3214, 3216), (3218, 3240),
      (3242, 3251), (3253, 3257), (3261, 3261), (3293, 3294), (3296, 3297), (3302,
      3311), (3313, 3314), (3332, 3340), (3342, 3344), (3346, 3386), (3389, 3389),
      (3406, 3406), (3412, 3414), (3416, 3425), (3430, 3448), (3450, 3455), (3461,
      3478), (3482, 3505), (3507, 3515), (3517, 3517), (3520, 3526), (3558, 3567),
      (3585, 3632), (3634, 3635), (3648, 3654), (3664, 3673), (3713, 3714), (3716,
      3716), (3718, 3722), (3724, 3747), (3749, 3749), (3751, 3760), (3762, 3763),
      (3773, 3773), (3776, 3780), (3782, 3782), (3792, 3801), (3804, 3807), (3840,
      3840), (3872, 3891), (3904, 3911), (3913, 3948), (3976, 3980), (4096, 4138),
      (4159, 4169), (4176, 4181), (4186, 4189), (4193, 4193), (4197, 4198), (4206,
      4208), (4213, 4225), (4238, 4238), (4240, 4249), (4256, 4293), (4295, 4295),
      (4301, 4301), (4304, 4346), (4348, 4680), (4682, 4685), (4688, 4694), (4696,
      4696), (4698, 4701), (4704, 4744), (4746, 4749), (4752, 4784), (4786, 4789),
      (4792, 4798), (4800, 4800), (4802, 4805), (4808, 4822), (4824, 4880), (4882,
      4885), (4888, 4954), (4969, 4988), (4992, 5007), (5024, 5109), (5112, 5117),
      (5121, 5740), (5743, 5759), (5761, 5786), (5792, 5866), (5870, 5880), (5888,
      5905), (5919, 5937), (5952, 5969), (5984, 5996), (5998, 6000), (6016, 6067),
      (6103, 6103), (6108, 6108), (6112, 6121), (6128, 6137), (6160, 6169), (6176,
      6264), (6272, 6276), (6279, 6312), (6314, 6314), (6320, 6389), (6400, 6430),
      (6470, 6509), (6512, 6516), (6528, 6571), (6576, 6601), (6608, 6618), (6656,
      6678), (6688, 6740), (6784, 6793), (6800, 6809), (6823, 6823), (6917, 6963),
      (6981, 6988), (6992, 7001), (7043, 7072), (7086, 7141), (7168, 7203), (7232,
      7241), (7245, 7293), (7296, 7304), (7312, 7354), (7357, 7359), (7401, 7404),
      (7406, 7411), (7413, 7414), (7418, 7418), (7424, 7615), (7680, 7957), (7960,
      7965), (7968, 8005), (8008, 8013), (8016, 8023), (8025, 8025), (8027, 8027),
      (8029, 8029), (8031, 8061), (8064, 8116), (8118, 8124), (8126, 8126), (8130,
      8132), (8134, 8140), (8144, 8147), (8150, 8155), (8160, 8172), (8178, 8180),
      (8182, 8188), (8304, 8305), (8308, 8313), (8319, 8329), (8336, 8348), (8450,
      8450), (8455, 8455), (8458, 8467), (8469, 8469), (8473, 8477), (8484, 8484),
      (8486, 8486), (8488, 8488), (8490, 8493), (8495, 8505), (8508, 8511), (8517,
      8521), (8526, 8526), (8528, 8585), (9312, 9371), (9450, 9471), (10102, 10131),
      (11264, 11492), (11499, 11502), (11506, 11507), (11517, 11517), (11520, 11557),
      (11559, 11559), (11565, 11565), (11568, 11623), (11631, 11631), (11648, 11670),
      (11680, 11686), (11688, 11694), (11696, 11702), (11704, 11710), (11712, 11718),
      (11720, 11726), (11728, 11734), (11736, 11742), (11823, 11823), (12293, 12295),
      (12321, 12329), (12337, 12341), (12344, 12348), (12353, 12438), (12445, 12447),
      (12449, 12538), (12540, 12543), (12549, 12591), (12593, 12686), (12690, 12693),
      (12704, 12735), (12784, 12799), (12832, 12841), (12872, 12879), (12881, 12895),
      (12928, 12937), (12977, 12991), (13312, 19903), (19968, 42124), (42192, 42237),
      (42240, 42508), (42512, 42539), (42560, 42606), (42623, 42653), (42656, 42735),
      (42775, 42783), (42786, 42888), (42891, 42954), (42960, 42961), (42963, 42963),
      (42965, 42969), (42994, 43009), (43011, 43013), (43015, 43018), (43020, 43042),
      (43056, 43061), (43072, 43123), (43138, 43187), (43216, 43225), (43250, 43255),
      (43259, 43259), (43261, 43262), (43264, 43301), (43312, 43334), (43360, 43388),
      (43396, 43442), (43471, 43481), (43488, 43492), (43494, 43518), (43520, 43560),
      (43584, 43586), (43588, 43595), (43600, 43609), (43616, 43638), (43642, 43642),
      (43646, 43695), (43697, 43697), (43701, 43702), (43705, 43709), (43712, 43712),
      (43714, 43714), (43739, 43741), (43744, 43754), (43762, 43764), (43777, 43782),
      (43785, 43790), (43793, 43798), (43808, 43814), (43816, 43822), (43824, 43866),
      (43868, 43881), (43888, 44002), (44016, 44025), (44032, 55203), (55216, 55238),
      (55243, 55291), (63744, 64109), (64112, 64217), (64256, 64262), (64275, 64279),
      (64285, 64285), (64287, 64296), (64298, 64310), (64312, 64316), (64318, 64318),
      (64320, 64321), (64323, 64324), (64326, 64433), (64467, 64829), (64848, 64911),
      (64914, 64967), (65008, 65019), (65136, 65140), (65142, 65276), (65296, 65305),
      (65313, 65338), (65345, 65370), (65382, 65470), (65474, 65479), (65482, 65487),
      (65490, 65495), (65498, 65500), (65536, 65547), (65549, 65574), (65576, 65594),
      (65596, 65597), (65599, 65613), (65616, 65629), (65664, 65786), (65799, 65843),
      (65856, 65912), (65930, 65931), (66176, 66204), (66208, 66256), (66273, 66299),
      (66304, 66339), (66349, 66378), (66384, 66421), (66432, 66461), (66464, 66499),
      (66504, 66511), (66513, 66517), (66560, 66717), (66720, 66729), (66736, 66771),
      (66776, 66811), (66816, 66855), (66864, 66915), (66928, 66938), (66940, 66954),
      (66956, 66962), (66964, 66965), (66967, 66977), (66979, 66993), (66995, 67001),
      (67003, 67004), (67072, 67382), (67392, 67413), (67424, 67431), (67456, 67461),
      (67463, 67504), (67506, 67514), (67584, 67589), (67592, 67592), (67594, 67637),
      (67639, 67640), (67644, 67644), (67647, 67669), (67672, 67702), (67705, 67742),
      (67751, 67759), (67808, 67826), (67828, 67829), (67835, 67867), (67872, 67897),
      (67968, 68023), (68028, 68047), (68050, 68096), (68112, 68115), (68117, 68119),
      (68121, 68149), (68160, 68168), (68192, 68222), (68224, 68255), (68288, 68295),
      (68297, 68324), (68331, 68335), (68352, 68405), (68416, 68437), (68440, 68466),
      (68472, 68497), (68521, 68527), (68608, 68680), (68736, 68786), (68800, 68850),
      (68858, 68899), (68912, 68921), (69216, 69246), (69248, 69289), (69296, 69297),
      (69376, 69415), (69424, 69445), (69457, 69460), (69488, 69505), (69552, 69579),
      (69600, 69622), (69635, 69687), (69714, 69743), (69745, 69746), (69749, 69749),
      (69763, 69807), (69840, 69864), (69872, 69881), (69891, 69926), (69942, 69951),
      (69956, 69956), (69959, 69959), (69968, 70002), (70006, 70006), (70019, 70066),
      (70081, 70084), (70096, 70106), (70108, 70108), (70113, 70132), (70144, 70161),
      (70163, 70187), (70272, 70278), (70280, 70280), (70282, 70285), (70287, 70301),
      (70303, 70312), (70320, 70366), (70384, 70393), (70405, 70412), (70415, 70416),
      (70419, 70440), (70442, 70448), (70450, 70451), (70453, 70457), (70461, 70461),
      (70480, 70480), (70493, 70497), (70656, 70708), (70727, 70730), (70736, 70745),
      (70751, 70753), (70784, 70831), (70852, 70853), (70855, 70855), (70864, 70873),
      (71040, 71086), (71128, 71131), (71168, 71215), (71236, 71236), (71248, 71257),
      (71296, 71338), (71352, 71352), (71360, 71369), (71424, 71450), (71472, 71483),
      (71488, 71494), (71680, 71723), (71840, 71922), (71935, 71942), (71945, 71945),
      (71948, 71955), (71957, 71958), (71960, 71983), (71999, 71999), (72001, 72001),
      (72016, 72025), (72096, 72103), (72106, 72144), (72161, 72161), (72163, 72163),
      (72192, 72192), (72203, 72242), (72250, 72250), (72272, 72272), (72284, 72329),
      (72349, 72349), (72368, 72440), (72704, 72712), (72714, 72750), (72768, 72768),
      (72784, 72812), (72818, 72847), (72960, 72966), (72968, 72969), (72971, 73008),
      (73030, 73030), (73040, 73049), (73056, 73061), (73063, 73064), (73066, 73097),
      (73112, 73112), (73120, 73129), (73440, 73458), (73648, 73648), (73664, 73684),
      (73728, 74649), (74752, 74862), (74880, 75075), (77712, 77808), (77824, 78894),
      (82944, 83526), (92160, 92728), (92736, 92766), (92768, 92777), (92784, 92862),
      (92864, 92873), (92880, 92909), (92928, 92975), (92992, 92995), (93008, 93017),
      (93019, 93025), (93027, 93047), (93053, 93071), (93760, 93846), (93952, 94026),
      (94032, 94032), (94099, 94111), (94176, 94177), (94179, 94179), (94208, 100343),
      (100352, 101589), (101632, 101640), (110576, 110579), (110581, 110587), (110589,
      110590), (110592, 110882), (110928, 110930), (110948, 110951), (110960, 111355),
      (113664, 113770), (113776, 113788), (113792, 113800), (113808, 113817), (119520,
      119539), (119648, 119672), (119808, 119892), (119894, 119964), (119966, 119967),
      (119970, 119970), (119973, 119974), (119977, 119980), (119982, 119993), (119995,
      119995), (119997, 120003), (120005, 120069), (120071, 120074), (120077, 120084),
      (120086, 120092), (120094, 120121), (120123, 120126), (120128, 120132), (120134,
      120134), (120138, 120144), (120146, 120485), (120488, 120512), (120514, 120538),
      (120540, 120570), (120572, 120596), (120598, 120628), (120630, 120654), (120656,
      120686), (120688, 120712), (120714, 120744), (120746, 120770), (120772, 120779),
      (120782, 120831), (122624, 122654), (123136, 123180), (123191, 123197), (123200,
      123209), (123214, 123214), (123536, 123565), (123584, 123627), (123632, 123641),
      (124896, 124902), (124904, 124907), (124909, 124910), (124912, 124926), (124928,
      125124), (125127, 125135), (125184, 125251), (125259, 125259), (125264, 125273),
      (126065, 126123), (126125, 126127), (126129, 126132), (126209, 126253), (126255,
      126269), (126464, 126467), (126469, 126495), (126497, 126498), (126500, 126500),
      (126503, 126503), (126505, 126514), (126516, 126519), (126521, 126521), (126523,
      126523), (126530, 126530), (126535, 126535), (126537, 126537), (126539, 126539),
      (126541, 126543), (126545, 126546), (126548, 126548), (126551, 126551), (126553,
      126553), (126555, 126555), (126557, 126557), (126559, 126559), (126561, 126562),
      (126564, 126564), (126567, 126570), (126572, 126578), (126580, 126583), (126585,
      126588), (126590, 126590), (126592, 126601), (126603, 126619), (126625, 126627),
      (126629, 126633), (126635, 126651), (127232, 127244), (130032, 130041), (131072,
      173791), (173824, 177976), (177984, 178205), (178208, 183969), (183984, 191456),
      (194560, 195101), (196608, 201546)]"

definition is_word :: "nat \<Rightarrow> bool" where
  "is_word c =
     (if c < 128 then (48 \<le> c \<and> c \<le> 57) \<or> (65 \<le> c \<and> c \<le> 90) \<or> (97 \<le> c \<and> c \<le> 122) \<or> c = 95
      else list_ex (\<lambda>(lo, hi). lo \<le> c \<and> c \<le> hi) word_ranges)"

text \<open>
  \<open>str.upper\<close> and \<open>str.lower\<close> map a string character by character. The code looks
  at the result only for the ASCII letters in it: \<open>value.upper().endswith(abbrev)\<close>,
  \<open>'Q' in value.upper()\<close>, and the look-up of \<open>name.lower()\<close> in a table whose keys
  are ASCII. So the mappings are given in full on ASCII and on every other character
  whose image holds an ASCII character (\<open>upper_special\<close>, \<open>lower_special\<close>); any other
  character, whose image has no ASCII character in it, stands for its own image.
\<close>

definition upper_special :: "(nat \<times> pystr) list" where
  "upper_special =
     [(223, [83, 83]), (305, [73]), (329, [700, 78]), (383, [83]), (496, [74, 780]),
      (7830, [72, 817]), (7831, [84, 776]), (7832, [87, 778]), (7833, [89, 778]),
      (7834, [65, 702]), (64256, [70, 70]), (64257, [70, 73]), (64258, [70, 76]),
      (64259, [70, 70, 73]), (64260, [70, 70, 76]), (64261, [83, 84]), (64262, [83, 84])]"

definition lower_special :: "(nat \<times> pystr) list" where
  "lower_special = [(304, [105, 775]), (8490, [107])]"

definition upper_char :: "nat \<Rightarrow> pystr" where
  "upper_char c =
     (if 97 \<le> c \<and> c \<le> 122 then [c - 32]
      else (case map_of upper_special c of Some u \<Rightarrow> u | None \<Rightarrow> [c]))"

definition lower_char :: "nat \<Rightarrow> pystr" where
  "lower_char c =
     (if 65 \<le> c \<and> c \<le> 90 then [c + 32]
      else (case map_of lower_special c of Some l \<Rightarrow> l | None \<Rightarrow> [c]))"

definition upper :: "pystr \<Rightarrow> pystr" where
  "upper s = concat (map upper_char s)"

definition lower :: "pystr \<Rightarrow> pystr" where
  "lower s = concat (map lower_char s)"

text \<open>The case mapping of C (\<open>toupper\<close>), on the ASCII letters only: a letter of a
  pattern compiled with \<open>re.IGNORECASE\<close> matches its two cases.\<close>

definition ascii_upper :: "nat \<Rightarrow> nat" where
  "ascii_upper c = (if 97 \<le> c \<and> c \<le> 122 then c - 32 else c)"

definition ascii_lower :: "nat \<Rightarrow> nat" where
  "ascii_lower c = (if 65 \<le> c \<and> c \<le> 90 then c + 32 else c)"

text \<open>\<open>s.strip()\<close>: leading and trailing whitespace removed.\<close>

definition strip :: "pystr \<Rightarrow> pystr" where
  "strip s = rev (dropWhile is_space (rev (dropWhile is_space s)))"

text \<open>\<open>s.startswith(p)\<close>, \<open>s.endswith(p)\<close>, \<open>s.replace(c, r)\<close> for a one-character
  \<open>c\<close>, and \<open>s[:-1]\<close>.\<close>

definition startswith :: "pystr \<Rightarrow> pystr \<Rightarrow> bool" where
  "startswith s p = (take (length p) s = p)"

definition endswith :: "pystr \<Rightarrow> pystr \<Rightarrow> bool" where
  "endswith s p = (length p \<le> length s \<and> drop (length s - length p) s = p)"

definition replace_char :: "nat \<Rightarrow> pystr \<Rightarrow> pystr \<Rightarrow> pystr" where
  "replace_char c r s = concat (map (\<lambda>x. if x = c then r else [x]) s)"

text \<open>\<open>s.split()\<close>: the maximal runs of non-whitespace characters, in order.\<close>

fun split_ws :: "pystr \<Rightarrow> pystr \<Rightarrow> pystr list" where
  "split_ws [] [] = []"
| "split_ws w [] = [rev w]"
| "split_ws w (c # cs) =
     (if is_space c then (if w = [] then split_ws [] cs else rev w # split_ws [] cs)
      else split_ws (c # w) cs)"

definition split :: "pystr \<Rightarrow> pystr list" where
  "split s = split_ws [] s"

subsection \<open>Exceptions\<close>

text \<open>
  A function that can raise returns \<open>py_exn + 'a\<close>, \<open>Inl\<close> the exception. An
  \<open>except ValueError\<close> clause handles \<open>ValueError\<close> only; \<open>except Exception\<close> and a bare
  \<open>except\<close> handle every \<open>py_exn\<close>.
\<close>

datatype py_exn = ValueError | OverflowError

subsection \<open>Floats\<close>

text \<open>
  A Python float is an IEEE 754 double: a finite number, an infinity or a NaN. A
  finite float is represented by the rational it stands for, \<open>Fin 0\<close> for both
  zeros, which compare equal. \<open>fl_round\<close> rounds a rational to the nearest double,
  a tie to the one with the even significand: a double is a multiple \<open>n * 2^(e - 52)\<close>
  with \<open>n < 2^53\<close> and \<open>- 1022 \<le> e \<le> 1023\<close>, where \<open>2^e\<close> is the largest power of
  two that is at most the magnitude, or \<open>e = - 1022\<close> for the subnormal numbers; what
  rounds to \<open>2^1024\<close> is an infinity.
\<close>

datatype pyfloat = Fin rat | PInf | NInf | NaN

text \<open>The number of binary digits of a natural number.\<close>

fun bit_length :: "nat \<Rightarrow> nat" where
  "bit_length n = (if n = 0 then 0 else Suc (bit_length (n div 2)))"

declare bit_length.simps [simp del]

definition pow2 :: "int \<Rightarrow> rat" where
  "pow2 e = (if 0 \<le> e then 2 ^ nat e else 1 / 2 ^ nat (- e))"

text \<open>For \<open>0 < q\<close>, the \<open>e\<close> with \<open>2^e \<le> q < 2^(e + 1)\<close>.\<close>

definition binary_exponent :: "rat \<Rightarrow> int" where
  "binary_exponent q =
     (if 1 \<le> q then int (bit_length (nat \<lfloor>q\<rfloor>)) - 1
      else (let k = int (bit_length (nat \<lfloor>1 / q\<rfloor>)) - 1
            in if q * pow2 k = 1 then - k else - k - 1))"

definition round_half_even :: "rat \<Rightarrow> int" where
  "round_half_even x =
     (let f = \<lfloor>x\<rfloor>; r = x - of_int f
      in if r < 1 / 2 then f else if 1 / 2 < r then f + 1 else if even f then f else f + 1)"

definition fl_round_pos :: "rat \<Rightarrow> pyfloat" where
  "fl_round_pos q =
     (let e = max (binary_exponent q) (- 1022);
          n = round_half_even (q / pow2 (e - 52))
      in if 1024 \<le> e \<or> (e = 1023 \<and> n = 2 ^ 53) then PInf
         else Fin (of_int n * pow2 (e - 52)))"

fun fl_neg :: "pyfloat \<Rightarrow> pyfloat" where
  "fl_neg (Fin a) = Fin (- a)"
| "fl_neg PInf = NInf"
| "fl_neg NInf = PInf"
| "fl_neg NaN = NaN"

definition fl_round :: "rat \<Rightarrow> pyfloat" where
  "fl_round q =
     (if q = 0 then Fin 0 else if 0 < q then fl_round_pos q else fl_neg (fl_round_pos (- q)))"

text \<open>Comparison, \<open>abs\<close>, multiplication by an int and subtraction of an int.
  Every comparison with a NaN is false.\<close>

fun fl_le :: "pyfloat \<Rightarrow> pyfloat \<Rightarrow> bool" where
  "fl_le NaN _ = False"
| "fl_le _ NaN = False"
| "fl_le NInf _ = True"
| "fl_le _ PInf = True"
| "fl_le (Fin a) (Fin b) = (a \<le> b)"
| "fl_le _ _ = False"

fun fl_lt :: "pyfloat \<Rightarrow> pyfloat \<Rightarrow> bool" where
  "fl_lt NaN _ = False"
| "fl_lt _ NaN = False"
| "fl_lt PInf _ = False"
| "fl_lt _ NInf = False"
| "fl_lt (Fin a) (Fin b) = (a < b)"
| "fl_lt _ _ = True"

fun fl_abs :: "pyfloat \<Rightarrow> pyfloat" where
  "fl_abs (Fin a) = Fin \<bar>a\<bar>"
| "fl_abs PInf = PInf"
| "fl_abs NInf = PInf"
| "fl_abs NaN = NaN"

text \<open>\<open>x * m\<close> for a positive int \<open>m\<close> (the abbreviation multipliers).\<close>

fun fl_times :: "pyfloat \<Rightarrow> int \<Rightarrow> pyfloat" where
  "fl_times (Fin a) m = fl_round (a * of_int m)"
| "fl_times PInf m = (if 0 < m then PInf else if m < 0 then NInf else NaN)"
| "fl_times NInf m = (if 0 < m then NInf else if m < 0 then PInf else NaN)"
| "fl_times NaN m = NaN"

fun fl_minus :: "pyfloat \<Rightarrow> int \<Rightarrow> pyfloat" where
  "fl_minus (Fin a) m = fl_round (a - of_int m)"
| "fl_minus x m = x"

text \<open>\<open>int(x)\<close> truncates towards zero; it raises \<open>OverflowError\<close> on an infinity and
  \<open>ValueError\<close> on a NaN.\<close>

fun py_int :: "pyfloat \<Rightarrow> py_exn + int" where
  "py_int (Fin a) = Inr (if 0 \<le> a then \<lfloor>a\<rfloor> else \<lceil>a\<rceil>)"
| "py_int PInf = Inl OverflowError"
| "py_int NInf = Inl OverflowError"
| "py_int NaN = Inl ValueError"

subsection \<open>Parsing numbers: \<open>float(s)\<close> and \<open>int(s)\<close>\<close>

text \<open>
  \<open>float(s)\<close> and \<open>int(s)\<close> first bring the text to ASCII (\<open>to_ascii\<close>): a text
  that is all ASCII stays as it is; in any other text a character below 127 stays,
  any other whitespace character becomes a space, any other decimal digit becomes
  the ASCII digit of its value, and the text is cut at the first character that is
  none of these, a \<open>?\<close> in its place. Then the ASCII whitespace at both ends is
  dropped; it is the set of C, without the separators U+001C to U+001F that
  \<open>str.strip\<close> removes.

  \<open>float\<close> then accepts an optional sign followed by \<open>inf\<close>, \<open>infinity\<close> or \<open>nan\<close> (in
  any case), or by a decimal number: digits with an optional point and an optional
  exponent, at least one digit before the exponent. An underscore is allowed
  between two digits. Anything else raises \<open>ValueError\<close>. The number is rounded to
  the nearest double.
\<close>

definition ascii_digit :: "nat \<Rightarrow> bool" where
  "ascii_digit c = (48 \<le> c \<and> c \<le> 57)"

definition ascii_space :: "nat \<Rightarrow> bool" where
  "ascii_space c = ((9 \<le> c \<and> c \<le> 13) \<or> c = 32)"

fun to_ascii_loop :: "pystr \<Rightarrow> pystr" where
  "to_ascii_loop [] = []"
| "to_ascii_loop (c # cs) =
     (if c < 127 then c # to_ascii_loop cs
      else if is_space c then 32 # to_ascii_loop cs
      else (case decimal_value c of
              Some d \<Rightarrow> (48 + d) # to_ascii_loop cs
            | None \<Rightarrow> [63]))"

definition to_ascii :: "pystr \<Rightarrow> pystr" where
  "to_ascii s = (if list_all (\<lambda>c. c < 128) s then s else to_ascii_loop s)"

definition ascii_strip :: "pystr \<Rightarrow> pystr" where
  "ascii_strip s = rev (dropWhile ascii_space (rev (dropWhile ascii_space s)))"

text \<open>The underscores of a numeric literal are removed; \<open>None\<close> when one of them does
  not stand between two digits. \<open>prev\<close> is the previous character, \<open>0\<close> at the start.\<close>

fun drop_underscores :: "nat \<Rightarrow> pystr \<Rightarrow> pystr option" where
  "drop_underscores prev [] = (if prev = 95 then None else Some [])"
| "drop_underscores prev (c # cs) =
     (if c = 95 then (if ascii_digit prev then drop_underscores c cs else None)
      else if prev = 95 \<and> \<not> ascii_digit c then None
      else map_option ((#) c) (drop_underscores c cs))"

definition digits_val :: "pystr \<Rightarrow> nat" where
  "digits_val ds = foldl (\<lambda>a c. 10 * a + (c - 48)) 0 ds"

text \<open>An optional sign: whether it is a minus, and the rest.\<close>

fun take_sign :: "pystr \<Rightarrow> bool \<times> pystr" where
  "take_sign [] = (False, [])"
| "take_sign (c # cs) =
     (if c = 45 then (True, cs) else if c = 43 then (False, cs) else (False, c # cs))"

text \<open>The exponent part of a float literal: empty, or \<open>e\<close>/\<open>E\<close>, an optional sign
  and at least one digit.\<close>

definition float_exponent :: "pystr \<Rightarrow> int option" where
  "float_exponent r =
     (case r of
        [] \<Rightarrow> Some 0
      | c # cs \<Rightarrow>
          if c = 101 \<or> c = 69 then
            (case take_sign cs of
               (neg, ds) \<Rightarrow>
                 if ds \<noteq> [] \<and> list_all ascii_digit ds
                 then Some (if neg then - int (digits_val ds) else int (digits_val ds))
                 else None)
          else None)"

definition pow10 :: "int \<Rightarrow> rat" where
  "pow10 e = (if 0 \<le> e then 10 ^ nat e else 1 / 10 ^ nat (- e))"

text \<open>An unsigned decimal number.\<close>

definition float_number :: "pystr \<Rightarrow> rat option" where
  "float_number r =
     (let ip = takeWhile ascii_digit r;
          r1 = dropWhile ascii_digit r;
          fp = (case r1 of [] \<Rightarrow> [] | c # cs \<Rightarrow> if c = 46 then takeWhile ascii_digit cs else []);
          r2 = (case r1 of [] \<Rightarrow> [] | c # cs \<Rightarrow> if c = 46 then dropWhile ascii_digit cs else r1)
      in if ip = [] \<and> fp = [] then None
         else (case float_exponent r2 of
                 None \<Rightarrow> None
               | Some e \<Rightarrow> Some (of_nat (digits_val (ip @ fp)) * pow10 (e - int (length fp)))))"

definition py_float :: "pystr \<Rightarrow> py_exn + pyfloat" where
  "py_float s =
     (case drop_underscores 0 (ascii_strip (to_ascii s)) of
        None \<Rightarrow> Inl ValueError
      | Some t \<Rightarrow>
          (case take_sign t of
             (neg, r) \<Rightarrow>
               if map ascii_lower r = str ''inf'' \<or> map ascii_lower r = str ''infinity''
               then Inr (if neg then NInf else PInf)
               else if map ascii_lower r = str ''nan'' then Inr NaN
               else (case float_number r of
                       None \<Rightarrow> Inl ValueError
                     | Some q \<Rightarrow> Inr (fl_round (if neg then - q else q)))))"

text \<open>\<open>int(s)\<close> for a string: the text brought to ASCII and stripped in the same way,
  an optional sign, decimal digits with underscores between them; more than 4300
  digits raise \<open>ValueError\<close> (the default limit of the interpreter).\<close>

definition py_int_str :: "pystr \<Rightarrow> py_exn + int" where
  "py_int_str s =
     (case take_sign (ascii_strip (to_ascii s)) of
        (neg, r) \<Rightarrow>
          (case drop_underscores 0 r of
             None \<Rightarrow> Inl ValueError
           | Some ds \<Rightarrow>
               if ds \<noteq> [] \<and> list_all ascii_digit ds \<and> length ds \<le> 4300
               then Inr (if neg then - int (digits_val ds) else int (digits_val ds))
               else Inl ValueError))"

subsection \<open>Regular expressions\<close>

text \<open>
  Every pattern of the two modules is a sequence of character classes, each with a
  repetition range, some of them captured as a group, and possibly a final \<open>$\<close>.
  \<open>Rep p lo hi\<close> is the class \<open>p\<close> repeated \<open>lo\<close> to \<open>hi\<close> times (\<open>None\<close>: no upper
  bound), \<open>Grp\<close> the same as a capturing group. Repetition is greedy with
  backtracking, as in \<open>re\<close>: the longest run is tried first, then shorter ones.
\<close>

datatype re_item = Rep "nat \<Rightarrow> bool" nat "nat option" | Grp "nat \<Rightarrow> bool" nat "nat option" | Dollar

text \<open>\<open>try_prefixes cont cap lo pre rest\<close>: the candidate run is \<open>rev pre\<close>, followed by
  \<open>rest\<close>; the continuation \<open>cont\<close> matches the remaining items. The result is the
  captured groups and the unmatched rest of the text.\<close>

fun try_prefixes ::
  "(pystr \<Rightarrow> (pystr list \<times> pystr) option) \<Rightarrow> bool \<Rightarrow> nat \<Rightarrow> pystr \<Rightarrow> pystr
     \<Rightarrow> (pystr list \<times> pystr) option" where
  "try_prefixes cont cap lo pre rest =
     (if length pre < lo then None
      else (case cont rest of
              Some (gs, r) \<Rightarrow> Some (if cap then rev pre # gs else gs, r)
            | None \<Rightarrow>
                (case pre of
                   [] \<Rightarrow> None
                 | c # pre' \<Rightarrow> try_prefixes cont cap lo pre' (c # rest))))"

definition run_length :: "(nat \<Rightarrow> bool) \<Rightarrow> nat option \<Rightarrow> pystr \<Rightarrow> nat" where
  "run_length p hi s =
     (case hi of None \<Rightarrow> length (takeWhile p s) | Some h \<Rightarrow> min h (length (takeWhile p s)))"

text \<open>\<open>$\<close> matches at the end of the text and before a final newline.\<close>

fun re_items :: "re_item list \<Rightarrow> pystr \<Rightarrow> (pystr list \<times> pystr) option" where
  "re_items [] s = Some ([], s)"
| "re_items (Rep p lo hi # its) s =
     try_prefixes (\<lambda>t. re_items its t) False lo
       (rev (take (run_length p hi s) s)) (drop (run_length p hi s) s)"
| "re_items (Grp p lo hi # its) s =
     try_prefixes (\<lambda>t. re_items its t) True lo
       (rev (take (run_length p hi s) s)) (drop (run_length p hi s) s)"
| "re_items (Dollar # its) s = (if s = [] \<or> s = [10] then re_items its s else None)"

text \<open>\<open>re.match(pattern, s)\<close>: the groups of a match at the start of \<open>s\<close>.\<close>

definition re_match :: "re_item list \<Rightarrow> pystr \<Rightarrow> pystr list option" where
  "re_match pat s = map_option fst (re_items pat s)"

text \<open>\<open>re.search(pattern, s)\<close>, as a truth value: a match at some position.\<close>

fun re_search :: "re_item list \<Rightarrow> pystr \<Rightarrow> bool" where
  "re_search pat [] = (re_items pat [] \<noteq> None)"
| "re_search pat (c # cs) = (if re_items pat (c # cs) \<noteq> None then True else re_search pat cs)"

text \<open>
  \<open>re.sub(pattern, r'\1\2', s)\<close>: every leftmost non-overlapping match is replaced by
  its groups. \<open>skip\<close> counts the characters that belong to the match being replaced.
  (The patterns it is used with match at least one character.)
\<close>

fun re_sub_groups :: "re_item list \<Rightarrow> nat \<Rightarrow> pystr \<Rightarrow> pystr" where
  "re_sub_groups pat skip [] = []"
| "re_sub_groups pat (Suc skip) (c # cs) = re_sub_groups pat skip cs"
| "re_sub_groups pat 0 (c # cs) =
     (case re_items pat (c # cs) of
        None \<Rightarrow> c # re_sub_groups pat 0 cs
      | Some (gs, rest) \<Rightarrow> concat gs @ re_sub_groups pat (length cs - length rest) cs)"

definition Lit :: "nat \<Rightarrow> re_item" where
  "Lit c = Rep (\<lambda>x. x = c) 1 (Some 1)"

text \<open>A literal letter under \<open>re.IGNORECASE\<close>. The only letter of the patterns is
  \<open>Q\<close>, which no character outside ASCII has as a case variant.\<close>

definition Lit_ci :: "nat \<Rightarrow> re_item" where
  "Lit_ci c = Rep (\<lambda>x. ascii_upper x = ascii_upper c) 1 (Some 1)"

section \<open>FormatParser (src/core/format\_parser.py)\<close>

text \<open>
  The parsers return a dictionary. A dictionary with a parsed value is a record
  (a key that the dictionary does not have is \<open>None\<close>; the key \<open>abbreviation\<close> is
  written \<open>abbreviation'\<close>); a dictionary whose
  \<open>parsed_value\<close> is \<open>None\<close> carries an \<open>error\<close> message, modelled by its kind and the
  text or exception the message quotes. A leading underscore of a Python name is
  written \<open>u_\<close>.
\<close>

datatype error_kind =
    Empty_value
  | Parse_error py_exn
  | Unrecognized_special_format pystr
  | Invalid_numeric_format py_exn
  | Unrecognized_date_format pystr
  | Unsupported_pattern string
  | Invalid_excel_serial_date py_exn
  | Invalid_quarter_format pystr
  | Invalid_month_year_format pystr

record amount =
  parsed_value :: pyfloat
  currency :: "string option"
  is_negative :: bool
  format :: "string option"
  abbreviation' :: "nat option"
  multiplier :: "int option"
  base_value :: "pyfloat option"

text \<open>\<open>Amount_error e original_value\<close>: the dictionary with \<open>parsed_value\<close> and
  \<open>currency\<close> \<open>None\<close>, \<open>is_negative\<close> \<open>False\<close> and the error \<open>e\<close>.\<close>

datatype amount_result = Amount amount | Amount_error error_kind "pystr option"

definition currency_symbols :: "(nat \<times> string) list" where
  "currency_symbols =
     [(36, ''USD''), (8364, ''EUR''), (8377, ''INR''), (163, ''GBP''), (165, ''JPY'')]"

definition abbreviation_multipliers :: "(nat \<times> int) list" where
  "abbreviation_multipliers =
     [(75, 1000), (77, 1000000), (66, 1000000000), (84, 1000000000000)]"

subsection \<open>\<open>normalize_currency\<close>\<close>

text \<open>The patterns \<open>[\d,]+\.\d{3}\<close>, \<open>(\d+)\.(\d{3})\<close> and \<open>(\d),(\d{3})\<close>.\<close>

definition european_pattern :: "re_item list" where
  "european_pattern = [Rep (\<lambda>c. is_digit c \<or> c = 44) 1 None, Lit 46, Rep is_digit 3 (Some 3)]"

definition grouping_dot_pattern :: "re_item list" where
  "grouping_dot_pattern = [Grp is_digit 1 None, Lit 46, Grp is_digit 3 (Some 3)]"

definition thousand_separator_pattern :: "re_item list" where
  "thousand_separator_pattern = [Grp is_digit 1 (Some 1), Lit 44, Grp is_digit 3 (Some 3)]"

definition normalize_currency :: "pystr \<Rightarrow> pystr" where
  "normalize_currency v =
     (let normalized =
            (if re_search european_pattern v
             then replace_char 44 [46] (re_sub_groups grouping_dot_pattern 0 v)
             else v)
      in re_sub_groups thousand_separator_pattern 0 normalized)"

subsection \<open>\<open>handle_special_formats\<close>\<close>

text \<open>
  The loop over the abbreviations: \<open>Some r\<close> when the loop returns \<open>r\<close> (or an
  exception other than the handled \<open>ValueError\<close> escapes), \<open>None\<close> when it runs to its
  end.
\<close>

fun abbreviated_loop :: "(nat \<times> int) list \<Rightarrow> pystr \<Rightarrow> (py_exn + amount_result) option" where
  "abbreviated_loop [] v = None"
| "abbreviated_loop ((abbrev, mult) # rest) v =
     (if endswith (upper v) [abbrev] then
        (let numeric_part = (if length v > 1 then butlast v else v) in
         case py_float numeric_part of
           Inr base \<Rightarrow>
             Some (Inr (Amount \<lparr>parsed_value = fl_times base mult, currency = None,
               is_negative = False, format = None, abbreviation' = Some abbrev,
               multiplier = Some mult, base_value = Some base\<rparr>))
         | Inl ValueError \<Rightarrow> abbreviated_loop rest v
         | Inl e \<Rightarrow> Some (Inl e))
      else abbreviated_loop rest v)"

text \<open>The parenthesised and the trailing-minus form share their shape: the inner
  text is normalised and parsed, \<open>None\<close> when \<open>float\<close> raises \<open>ValueError\<close>.\<close>

definition negative_form :: "string \<Rightarrow> pystr \<Rightarrow> (py_exn + amount_result) option" where
  "negative_form tag inner =
     (case py_float (normalize_currency inner) of
        Inr x \<Rightarrow>
          Some (Inr (Amount \<lparr>parsed_value = fl_abs x, currency = None, is_negative = True,
            format = Some tag, abbreviation' = None, multiplier = None, base_value = None\<rparr>))
      | Inl ValueError \<Rightarrow> None
      | Inl e \<Rightarrow> Some (Inl e))"

definition handle_special_formats :: "pystr \<Rightarrow> py_exn + amount_result" where
  "handle_special_formats v =
     (case abbreviated_loop abbreviation_multipliers v of
        Some r \<Rightarrow> r
      | None \<Rightarrow>
          (case (if startswith v [40] \<and> endswith v [41]
                 then negative_form ''parentheses_negative'' (butlast (tl v)) else None) of
             Some r \<Rightarrow> r
           | None \<Rightarrow>
               (case (if endswith v [45]
                      then negative_form ''trailing_negative'' (butlast v) else None) of
                  Some r \<Rightarrow> r
                | None \<Rightarrow> Inr (Amount_error (Unrecognized_special_format v) None))))"

definition u_is_special_format :: "pystr \<Rightarrow> bool" where
  "u_is_special_format v =
     (if list_ex (\<lambda>abbrev. endswith (upper v) [abbrev]) (map fst abbreviation_multipliers)
      then True
      else if startswith v [40] \<and> endswith v [41] then True
      else if endswith v [45] then True
      else False)"

definition u_handle_special_formats :: "pystr \<Rightarrow> py_exn + amount_result" where
  "u_handle_special_formats v = handle_special_formats v"

subsection \<open>\<open>_parse_normalized_amount\<close> and \<open>parse_amount\<close>\<close>

text \<open>The first symbol of the table that occurs in the text gives the currency.\<close>

fun find_currency :: "(nat \<times> string) list \<Rightarrow> pystr \<Rightarrow> string option" where
  "find_currency [] v = None"
| "find_currency ((symbol, code) # rest) v =
     (if symbol \<in> set v then Some code else find_currency rest v)"

definition u_parse_normalized_amount :: "pystr \<Rightarrow> py_exn + amount_result" where
  "u_parse_normalized_amount normalized_value =
     (let currency = find_currency currency_symbols normalized_value;
          clean_value = filter (\<lambda>c. c \<notin> set (map fst currency_symbols)) normalized_value
      in case py_float clean_value of
           Inr x \<Rightarrow>
             Inr (Amount \<lparr>parsed_value = fl_abs x, currency = currency,
               is_negative = fl_lt x (Fin 0), format = Some ''standard'',
               abbreviation' = None, multiplier = None, base_value = None\<rparr>)
         | Inl ValueError \<Rightarrow> Inr (Amount_error (Invalid_numeric_format ValueError) None)
         | Inl e \<Rightarrow> Inl e)"

text \<open>
  \<open>parse_amount\<close>: \<open>None\<close> is a null cell (\<open>pd.isna\<close>). The \<open>try\<close> block is the inner
  \<open>case\<close>; its \<open>except Exception\<close> turns every exception into a \<open>Parse error\<close>
  dictionary. \<open>Inl\<close> would be an exception that leaves \<open>parse_amount\<close>.
\<close>

definition parse_amount :: "pystr option \<Rightarrow> py_exn + amount_result" where
  "parse_amount v =
     (case v of
        None \<Rightarrow> Inr (Amount_error Empty_value None)
      | Some s \<Rightarrow>
          if s = [] then Inr (Amount_error Empty_value None)
          else (let str_value = strip s in
                case (if u_is_special_format str_value
                      then u_handle_special_formats str_value
                      else u_parse_normalized_amount (normalize_currency str_value)) of
                  Inr r \<Rightarrow> Inr r
                | Inl e \<Rightarrow> Inr (Amount_error (Parse_error e) (Some str_value))))"

subsection \<open>Calendar dates\<close>

text \<open>
  \<open>datetime(year, month, day)\<close> and the addition of a number of days follow the
  proleptic Gregorian ordinals of Python's \<open>datetime\<close> module (day 1 is 0001-01-01).
  The time of day of a \<open>datetime\<close> is not modelled.
\<close>

record datetime =
  dt_year :: int
  dt_month :: int
  dt_day :: int

definition is_leap :: "int \<Rightarrow> bool" where
  "is_leap y = (y mod 4 = 0 \<and> (y mod 100 \<noteq> 0 \<or> y mod 400 = 0))"

definition days_before_year :: "int \<Rightarrow> int" where
  "days_before_year y = (let y1 = y - 1 in y1 * 365 + y1 div 4 - y1 div 100 + y1 div 400)"

definition DAYS_IN_MONTH :: "int list" where
  "DAYS_IN_MONTH = [-1, 31, 28, 31, 30, 31, 30, 31, 31, 30, 31, 30, 31]"

definition DAYS_BEFORE_MONTH :: "int list" where
  "DAYS_BEFORE_MONTH = [-1, 0, 31, 59, 90, 120, 151, 181, 212, 243, 273, 304, 334]"

definition days_in_month :: "int \<Rightarrow> int \<Rightarrow> int" where
  "days_in_month y m = (if m = 2 \<and> is_leap y then 29 else DAYS_IN_MONTH ! nat m)"

definition days_before_month :: "int \<Rightarrow> int \<Rightarrow> int" where
  "days_before_month y m = DAYS_BEFORE_MONTH ! nat m + (if m > 2 \<and> is_leap y then 1 else 0)"

definition ymd2ord :: "int \<Rightarrow> int \<Rightarrow> int \<Rightarrow> int" where
  "ymd2ord y m d = days_before_year y + days_before_month y m + d"

definition ord2ymd :: "int \<Rightarrow> datetime" where
  "ord2ymd n0 =
     (let n = n0 - 1;
          n400 = n div 146097; n = n mod 146097;
          n100 = n div 36524; n = n mod 36524;
          n4 = n div 1461; n = n mod 1461;
          n1 = n div 365; n = n mod 365;
          y = n400 * 400 + 1 + n100 * 100 + n4 * 4 + n1
      in if n1 = 4 \<or> n100 = 4 then \<lparr>dt_year = y - 1, dt_month = 12, dt_day = 31\<rparr>
         else
           (let leapyear = (n1 = 3 \<and> (n4 \<noteq> 24 \<or> n100 = 3));
                m = (n + 50) div 32;
                preceding = DAYS_BEFORE_MONTH ! nat m + (if m > 2 \<and> leapyear then 1 else 0)
            in if preceding > n
               then \<lparr>dt_year = y, dt_month = m - 1,
                      dt_day = n - (preceding - (DAYS_IN_MONTH ! nat (m - 1)
                                 + (if m - 1 = 2 \<and> leapyear then 1 else 0))) + 1\<rparr>
               else \<lparr>dt_year = y, dt_month = m, dt_day = n - preceding + 1\<rparr>))"

text \<open>The constructor raises \<open>ValueError\<close> outside the years 1 to 9999, the months
  1 to 12 and the days of the month.\<close>

definition py_datetime :: "int \<Rightarrow> int \<Rightarrow> int \<Rightarrow> py_exn + datetime" where
  "py_datetime y m d =
     (if 1 \<le> y \<and> y \<le> 9999 \<and> 1 \<le> m \<and> m \<le> 12 \<and> 1 \<le> d \<and> d \<le> days_in_month y m
      then Inr \<lparr>dt_year = y, dt_month = m, dt_day = d\<rparr>
      else Inl ValueError)"

text \<open>
  \<open>base + pd.Timedelta(days=x)\<close>: a \<open>Timedelta\<close> holds at most \<open>2^63 - 1\<close>
  nanoseconds and raises beyond; the date moves by the whole days of \<open>x\<close>. (An
  infinity raises as well. \<open>pd.Timedelta\<close> of a NaN is the null value \<open>NaT\<close>
  and nothing raises; this is modelled as an exception too, the only caller excludes
  a NaN by the range test before.)
\<close>

definition add_days :: "datetime \<Rightarrow> pyfloat \<Rightarrow> py_exn + datetime" where
  "add_days base x =
     (case x of
        Fin q \<Rightarrow>
          if \<bar>q\<bar> * 86400000000000 < 9223372036854775808
          then Inr (ord2ymd (ymd2ord (dt_year base) (dt_month base) (dt_day base) + \<lfloor>q\<rfloor>))
          else Inl OverflowError
      | PInf \<Rightarrow> Inl OverflowError
      | NInf \<Rightarrow> Inl OverflowError
      | NaN \<Rightarrow> Inl ValueError)"

subsection \<open>Dates: the result dictionaries and the patterns\<close>

record parsed_date =
  date_value :: datetime
  date_format :: string
  year :: int
  month :: int
  day :: int
  quarter :: "int option"
  serial_date :: "pyfloat option"
  month_name :: "pystr option"

text \<open>\<open>Date_error format e original_value\<close>: the dictionary with \<open>parsed_value\<close>
  \<open>None\<close>, the given \<open>format\<close> (possibly \<open>None\<close>) and the error \<open>e\<close>.\<close>

datatype date_result = Date parsed_date | Date_error "string option" error_kind "pystr option"

text \<open>The dictionary \<open>date_patterns\<close> of the parser, in its order.\<close>

definition date_patterns :: "(string \<times> re_item list) list" where
  "date_patterns =
     [(''MM/DD/YYYY'', [Grp is_digit 1 (Some 2), Lit 47, Grp is_digit 1 (Some 2), Lit 47,
                        Grp is_digit 4 (Some 4)]),
      (''DD/MM/YYYY'', [Grp is_digit 1 (Some 2), Lit 47, Grp is_digit 1 (Some 2), Lit 47,
                        Grp is_digit 4 (Some 4)]),
      (''YYYY-MM-DD'', [Grp is_digit 4 (Some 4), Lit 45, Grp is_digit 1 (Some 2), Lit 45,
                        Grp is_digit 1 (Some 2)]),
      (''DD-MON-YYYY'', [Grp is_digit 1 (Some 2), Lit 45, Grp is_word 3 (Some 3), Lit 45,
                         Grp is_digit 4 (Some 4)]),
      (''Quarter'', [Lit_ci 81, Grp (\<lambda>c. 49 \<le> c \<and> c \<le> 52) 1 (Some 1), Rep is_space 1 None,
                     Grp is_digit 4 (Some 4)]),
      (''Month-Year'', [Grp is_word 1 None, Rep is_space 1 None, Grp is_digit 4 (Some 4)])]"

text \<open>The patterns \<open>Q([1-4])\s+(\d{4})\<close>, \<open>Q([1-4])-(\d{2})\<close> and \<open>\w+\s+\d{4}\<close>.\<close>

definition quarter_pattern :: "re_item list" where
  "quarter_pattern =
     [Lit_ci 81, Grp (\<lambda>c. 49 \<le> c \<and> c \<le> 52) 1 (Some 1), Rep is_space 1 None,
      Grp is_digit 4 (Some 4)]"

definition quarter_short_pattern :: "re_item list" where
  "quarter_short_pattern =
     [Lit_ci 81, Grp (\<lambda>c. 49 \<le> c \<and> c \<le> 52) 1 (Some 1), Lit 45, Grp is_digit 2 (Some 2)]"

definition month_year_pattern :: "re_item list" where
  "month_year_pattern = [Rep is_word 1 None, Rep is_space 1 None, Rep is_digit 4 (Some 4)]"

definition month_abbrevs :: "(string \<times> int) list" where
  "month_abbrevs =
     [(''jan'', 1), (''feb'', 2), (''mar'', 3), (''apr'', 4), (''may'', 5), (''jun'', 6),
      (''jul'', 7), (''aug'', 8), (''sep'', 9), (''oct'', 10), (''nov'', 11), (''dec'', 12)]"

definition month_names :: "(string \<times> int) list" where
  "month_names =
     [(''january'', 1), (''february'', 2), (''march'', 3), (''april'', 4), (''may'', 5),
      (''june'', 6), (''july'', 7), (''august'', 8), (''september'', 9), (''october'', 10),
      (''november'', 11), (''december'', 12)]"

text \<open>\<open>month_map.get(name.lower(), 1)\<close>.\<close>

definition month_get :: "(string \<times> int) list \<Rightarrow> pystr \<Rightarrow> int" where
  "month_get month_map name =
     (case map_of (map (\<lambda>(k, n). (str k, n)) month_map) (lower name) of
        Some n \<Rightarrow> n
      | None \<Rightarrow> 1)"

definition u_month_abbrev_to_num :: "pystr \<Rightarrow> int" where
  "u_month_abbrev_to_num month_abbrev = month_get month_abbrevs month_abbrev"

definition u_month_name_to_num :: "pystr \<Rightarrow> int" where
  "u_month_name_to_num name = month_get month_names name"

text \<open>Sequencing of computations that can raise.\<close>

definition then_exn :: "py_exn + 'a \<Rightarrow> ('a \<Rightarrow> py_exn + 'b) \<Rightarrow> py_exn + 'b" where
  "then_exn r f = (case r of Inl e \<Rightarrow> Inl e | Inr x \<Rightarrow> f x)"

definition date_dict :: "string \<Rightarrow> datetime \<Rightarrow> parsed_date" where
  "date_dict tag d =
     \<lparr>date_value = d, date_format = tag, year = dt_year d, month = dt_month d,
      day = dt_day d, quarter = None, serial_date = None, month_name = None\<rparr>"

subsection \<open>\<open>_is_excel_serial_date\<close> and \<open>_parse_excel_serial_date\<close>\<close>

definition u_is_excel_serial_date :: "pystr \<Rightarrow> py_exn + bool" where
  "u_is_excel_serial_date v =
     (case py_float v of
        Inr float_val \<Rightarrow> Inr (fl_le (Fin 1) float_val \<and> fl_le float_val (Fin 100000))
      | Inl ValueError \<Rightarrow> Inr False
      | Inl e \<Rightarrow> Inl e)"

text \<open>The body of the \<open>try\<close> block: the corrected serial number and the date.\<close>

definition excel_serial_body :: "pystr \<Rightarrow> py_exn + (pyfloat \<times> datetime)" where
  "excel_serial_body v =
     then_exn (py_float v) (\<lambda>x.
       let serial = (if fl_lt (Fin 59) x then fl_minus x 1 else x) in
       then_exn (py_datetime 1900 1 1) (\<lambda>base_date.
         then_exn (add_days base_date (fl_minus serial 1)) (\<lambda>parsed. Inr (serial, parsed))))"

definition u_parse_excel_serial_date :: "pystr \<Rightarrow> date_result" where
  "u_parse_excel_serial_date v =
     (case excel_serial_body v of
        Inr (serial, parsed) \<Rightarrow>
          Date ((date_dict ''excel_serial'' parsed)\<lparr>serial_date := Some serial\<rparr>)
      | Inl e \<Rightarrow> Date_error (Some ''excel_serial'') (Invalid_excel_serial_date e) None)"

subsection \<open>\<open>_parse_date_pattern\<close>\<close>

text \<open>The body of the \<open>try\<close> block for the four supported patterns; \<open>groups\<close> are
  \<open>match.groups()\<close>, unpacked into three names.\<close>

definition pattern_datetime :: "string \<Rightarrow> pystr list \<Rightarrow> py_exn + datetime" where
  "pattern_datetime pattern_name groups =
     (case groups of
        [g1, g2, g3] \<Rightarrow>
          if pattern_name = ''MM/DD/YYYY'' then
            then_exn (py_int_str g3) (\<lambda>y. then_exn (py_int_str g1) (\<lambda>m.
              then_exn (py_int_str g2) (\<lambda>d. py_datetime y m d)))
          else if pattern_name = ''DD/MM/YYYY'' then
            then_exn (py_int_str g3) (\<lambda>y. then_exn (py_int_str g2) (\<lambda>m.
              then_exn (py_int_str g1) (\<lambda>d. py_datetime y m d)))
          else if pattern_name = ''YYYY-MM-DD'' then
            then_exn (py_int_str g1) (\<lambda>y. then_exn (py_int_str g2) (\<lambda>m.
              then_exn (py_int_str g3) (\<lambda>d. py_datetime y m d)))
          else
            then_exn (py_int_str g3) (\<lambda>y.
              then_exn (py_int_str g1) (\<lambda>d. py_datetime y (u_month_abbrev_to_num g2) d))
      | _ \<Rightarrow> Inl ValueError)"

definition u_parse_date_pattern :: "string \<Rightarrow> pystr list \<Rightarrow> pystr \<Rightarrow> date_result" where
  "u_parse_date_pattern pattern_name groups original_value =
     (if pattern_name = ''MM/DD/YYYY'' \<or> pattern_name = ''DD/MM/YYYY''
         \<or> pattern_name = ''YYYY-MM-DD'' \<or> pattern_name = ''DD-MON-YYYY''
      then (case pattern_datetime pattern_name groups of
              Inr parsed \<Rightarrow> Date (date_dict pattern_name parsed)
            | Inl e \<Rightarrow> Date_error (Some pattern_name) (Parse_error e) (Some original_value))
      else Date_error (Some pattern_name) (Unsupported_pattern pattern_name) None)"

subsection \<open>\<open>_parse_quarter_format\<close> and \<open>_parse_month_year_format\<close>\<close>

definition quarter_dict ::
  "string \<Rightarrow> int \<Rightarrow> int \<Rightarrow> py_exn + parsed_date" where
  "quarter_dict tag q y =
     (let m = (q - 1) * 3 + 1 in
      then_exn (py_datetime y m 1) (\<lambda>parsed.
        Inr \<lparr>date_value = parsed, date_format = tag, year = y, month = m, day = 1,
             quarter = Some q, serial_date = None, month_name = None\<rparr>))"

definition quarter_body :: "pystr \<Rightarrow> py_exn + date_result" where
  "quarter_body v =
     (case re_match quarter_pattern v of
        Some [q, y] \<Rightarrow>
          then_exn (py_int_str q) (\<lambda>quarter_num.
            then_exn (py_int_str y) (\<lambda>year_num.
              then_exn (quarter_dict ''quarter'' quarter_num year_num) (\<lambda>r. Inr (Date r))))
      | Some _ \<Rightarrow> Inl ValueError
      | None \<Rightarrow>
          (case re_match quarter_short_pattern v of
             Some [q, y] \<Rightarrow>
               then_exn (py_int_str q) (\<lambda>quarter_num.
                 then_exn (py_int_str y) (\<lambda>year_short.
                   then_exn (quarter_dict ''quarter_short'' quarter_num (2000 + year_short))
                     (\<lambda>r. Inr (Date r))))
           | Some _ \<Rightarrow> Inl ValueError
           | None \<Rightarrow> Inr (Date_error (Some ''quarter'') (Invalid_quarter_format v) None)))"

definition u_parse_quarter_format :: "pystr \<Rightarrow> date_result" where
  "u_parse_quarter_format v =
     (case quarter_body v of
        Inr r \<Rightarrow> r
      | Inl e \<Rightarrow> Date_error (Some ''quarter'') (Parse_error e) (Some v))"

definition month_year_body :: "pystr \<Rightarrow> py_exn + date_result" where
  "month_year_body v =
     (case split v of
        month_str # year_str # _ \<Rightarrow>
          (let month_num = u_month_name_to_num month_str in
           then_exn (py_int_str year_str) (\<lambda>y.
             then_exn (py_datetime y month_num 1) (\<lambda>parsed.
               Inr (Date \<lparr>date_value = parsed, date_format = ''month_year'', year = y,
                 month = month_num, day = 1, quarter = None, serial_date = None,
                 month_name = Some month_str\<rparr>))))
      | _ \<Rightarrow> Inr (Date_error (Some ''month_year'') (Invalid_month_year_format v) None))"

definition u_parse_month_year_format :: "pystr \<Rightarrow> date_result" where
  "u_parse_month_year_format v =
     (case month_year_body v of
        Inr r \<Rightarrow> r
      | Inl e \<Rightarrow> Date_error (Some ''month_year'') (Parse_error e) (Some v))"

subsection \<open>\<open>parse_date\<close>\<close>

text \<open>The loop over \<open>date_patterns\<close>: the first pattern that matches, with its groups.\<close>

fun first_pattern :: "(string \<times> re_item list) list \<Rightarrow> pystr \<Rightarrow> (string \<times> pystr list) option" where
  "first_pattern [] v = None"
| "first_pattern ((pattern_name, pat) # rest) v =
     (case re_match pat v of
        Some groups \<Rightarrow> Some (pattern_name, groups)
      | None \<Rightarrow> first_pattern rest v)"

text \<open>
  \<open>dateutil.parser.parse\<close> belongs to a library outside the repository: it is the
  parameter \<open>dateutil\<close>, \<open>None\<close> when the call raises (the bare \<open>except\<close> around it
  handles every exception). The body of the outer \<open>try\<close> block is \<open>parse_date_body\<close>;
  \<open>Inl\<close> from \<open>parse_date\<close> would be an exception that leaves it.
\<close>

definition parse_date_body :: "(pystr \<Rightarrow> datetime option) \<Rightarrow> pystr \<Rightarrow> py_exn + date_result" where
  "parse_date_body dateutil str_value =
     then_exn (u_is_excel_serial_date str_value) (\<lambda>is_serial.
       if is_serial then Inr (u_parse_excel_serial_date str_value)
       else (case dateutil str_value of
               Some parsed \<Rightarrow> Inr (Date (date_dict ''dateutil_parsed'' parsed))
             | None \<Rightarrow>
                 (case first_pattern date_patterns str_value of
                    Some (pattern_name, groups) \<Rightarrow>
                      Inr (u_parse_date_pattern pattern_name groups str_value)
                  | None \<Rightarrow>
                      if 81 \<in> set (upper str_value) then Inr (u_parse_quarter_format str_value)
                      else if re_match month_year_pattern str_value \<noteq> None
                      then Inr (u_parse_month_year_format str_value)
                      else Inr (Date_error None (Unrecognized_date_format str_value)
                                  (Some str_value)))))"

definition parse_date :: "(pystr \<Rightarrow> datetime option) \<Rightarrow> pystr option \<Rightarrow> py_exn + date_result" where
  "parse_date dateutil v =
     (case v of
        None \<Rightarrow> Inr (Date_error None Empty_value None)
      | Some s \<Rightarrow>
          if s = [] then Inr (Date_error None Empty_value None)
          else (let str_value = strip s in
                case parse_date_body dateutil str_value of
                  Inr r \<Rightarrow> Inr r
                | Inl e \<Rightarrow> Inr (Date_error None (Parse_error e) (Some str_value))))"

text \<open>A \<open>dateutil\<close> that rejects every text.\<close>

definition dateutil_rejects :: "pystr \<Rightarrow> datetime option" where
  "dateutil_rejects s = None"

section \<open>DataTypeDetector (src/core/type\_detector.py)\<close>

text \<open>
  A column sample is a list of cells, \<open>None\<close> a null cell; \<open>dropna\<close> discards the
  null cells and \<open>astype(str)\<close> leaves the texts as they are. The scores
  \<open>date_score\<close> and \<open>number_score\<close> are quotients of two counts; a score is the
  exact quotient, of which the float of the code is the nearest double. The code
  compares these two scores with 0.5 only, which gives the same on the quotient and
  on its double for every sample of fewer than \<open>2^53\<close> values, and replaces them
  by 1.0 and 0.0. The \<open>format_info\<close> entry of the result, which only describes the
  sample and cannot raise, is left out.
\<close>

definition dropna :: "pystr option list \<Rightarrow> pystr list" where
  "dropna cells = concat (map (\<lambda>c. case c of None \<Rightarrow> [] | Some s \<Rightarrow> [s]) cells)"

text \<open>The list \<open>date_patterns\<close> of the detector; every use is \<open>re.match\<close> with
  \<open>re.IGNORECASE\<close>.\<close>

definition detector_date_patterns :: "re_item list list" where
  "detector_date_patterns =
     [[Rep is_digit 1 (Some 2), Lit 47, Rep is_digit 1 (Some 2), Lit 47, Rep is_digit 2 (Some 4)],
      [Rep is_digit 4 (Some 4), Lit 45, Rep is_digit 1 (Some 2), Lit 45, Rep is_digit 1 (Some 2)],
      [Rep is_digit 1 (Some 2), Lit 45, Rep is_word 3 (Some 3), Lit 45, Rep is_digit 2 (Some 4)],
      [Lit_ci 81, Rep (\<lambda>c. 49 \<le> c \<and> c \<le> 52) 1 (Some 1), Rep is_space 1 None,
       Rep is_digit 4 (Some 4)],
      [Lit_ci 81, Rep (\<lambda>c. 49 \<le> c \<and> c \<le> 52) 1 (Some 1), Lit 45, Rep is_digit 2 (Some 2)],
      [Rep is_word 3 (Some 3), Rep is_space 1 None, Rep is_digit 4 (Some 4)],
      [Rep is_word 1 None, Rep is_space 1 None, Rep is_digit 4 (Some 4)]]"

text \<open>The inner loop \<open>for pattern in self.date_patterns\<close>: some pattern matches.\<close>

definition matches_date_pattern :: "pystr \<Rightarrow> bool" where
  "matches_date_pattern value_str =
     list_ex (\<lambda>pat. re_match pat value_str \<noteq> None) detector_date_patterns"

text \<open>
  The serial-date test of \<open>_detect_date_format\<close>: \<open>float\<close> and \<open>int\<close> stand in a
  \<open>try\<close> with \<open>except ValueError\<close>, so a \<open>ValueError\<close> gives \<open>False\<close> and any other
  exception leaves the function.
\<close>

definition is_serial_integer :: "pystr \<Rightarrow> py_exn + bool" where
  "is_serial_integer value_str =
     (case py_float value_str of
        Inl ValueError \<Rightarrow> Inr False
      | Inl e \<Rightarrow> Inl e
      | Inr float_val \<Rightarrow>
          (case py_int float_val of
             Inl ValueError \<Rightarrow> Inr False
           | Inl e \<Rightarrow> Inl e
           | Inr i \<Rightarrow>
               Inr (float_val = Fin (of_int i)
                    \<and> fl_le (Fin 1000) float_val \<and> fl_le float_val (Fin 73050))))"

text \<open>The loop of \<open>_detect_date_format\<close>, \<open>date_count\<close> its counter.\<close>

fun date_count_loop :: "pystr list \<Rightarrow> nat \<Rightarrow> py_exn + nat" where
  "date_count_loop [] date_count = Inr date_count"
| "date_count_loop (v # vs) date_count =
     (let value_str = strip v in
      case is_serial_integer value_str of
        Inl e \<Rightarrow> Inl e
      | Inr True \<Rightarrow> date_count_loop vs (date_count + 1)
      | Inr False \<Rightarrow>
          if matches_date_pattern value_str then date_count_loop vs (date_count + 1)
          else date_count_loop vs date_count)"

definition u_detect_date_format :: "pystr list \<Rightarrow> py_exn + rat" where
  "u_detect_date_format str_data =
     (case date_count_loop str_data 0 of
        Inl e \<Rightarrow> Inl e
      | Inr date_count \<Rightarrow>
          Inr (if length str_data > 0 then of_nat date_count / of_nat (length str_data) else 0))"

text \<open>
  \<open>_detect_number_format\<close>: a value that matches a date pattern is skipped; otherwise
  it counts when \<open>float\<close> accepts it after the characters \<open>$\<close>, the other currency
  symbols, \<open>,\<close>, \<open>(\<close>, \<open>)\<close> and \<open>-\<close> are removed, or when it matches
  \<open>^[\d.]+[KMB]$\<close> without regard to case (under \<open>re.IGNORECASE\<close> the letter K also
  matches the Kelvin sign U+212A).
\<close>

definition abbreviated_number_pattern :: "re_item list" where
  "abbreviated_number_pattern =
     [Rep (\<lambda>c. is_digit c \<or> c = 46) 1 None,
      Rep (\<lambda>c. ascii_upper c \<in> {75, 77, 66} \<or> c = 8490) 1 (Some 1), Dollar]"

definition counts_as_number :: "pystr \<Rightarrow> py_exn + bool" where
  "counts_as_number value_str =
     (if matches_date_pattern value_str then Inr False
      else
        (let clean_value =
               filter (\<lambda>c. c \<noteq> 45)
                 (filter (\<lambda>c. c \<notin> {36, 8364, 8377, 163, 165, 44, 40, 41}) value_str)
         in case py_float clean_value of
              Inr x \<Rightarrow> Inr True
            | Inl ValueError \<Rightarrow> Inr (re_match abbreviated_number_pattern value_str \<noteq> None)
            | Inl e \<Rightarrow> Inl e))"

fun number_count_loop :: "pystr list \<Rightarrow> nat \<Rightarrow> py_exn + nat" where
  "number_count_loop [] number_count = Inr number_count"
| "number_count_loop (v # vs) number_count =
     (case counts_as_number (strip v) of
        Inl e \<Rightarrow> Inl e
      | Inr True \<Rightarrow> number_count_loop vs (number_count + 1)
      | Inr False \<Rightarrow> number_count_loop vs number_count)"

definition u_detect_number_format :: "pystr list \<Rightarrow> py_exn + rat" where
  "u_detect_number_format str_data =
     (case number_count_loop str_data 0 of
        Inl e \<Rightarrow> Inl e
      | Inr number_count \<Rightarrow>
          Inr (if length str_data > 0 then of_nat number_count / of_nat (length str_data)
               else 0))"

subsection \<open>\<open>analyze_column\<close>\<close>

text \<open>The dictionary \<open>scores\<close> keeps its keys in the order \<open>string\<close>, \<open>number\<close>, \<open>date\<close>;
  \<open>max(scores, key=scores.get)\<close> is the first key with the greatest score.\<close>

record classification =
  type' :: string
  confidence :: rat
  scores :: "(string \<times> rat) list"

fun max_key :: "(string \<times> rat) list \<Rightarrow> string \<times> rat \<Rightarrow> string \<times> rat" where
  "max_key [] best = best"
| "max_key ((k, x) # rest) best = (if snd best < x then max_key rest (k, x) else max_key rest best)"

definition py_max_key :: "(string \<times> rat) list \<Rightarrow> string" where
  "py_max_key d = (case d of [] \<Rightarrow> [] | kx # rest \<Rightarrow> fst (max_key rest kx))"

definition score_of :: "(string \<times> rat) list \<Rightarrow> string \<Rightarrow> rat" where
  "score_of d k = (case map_of d k of Some x \<Rightarrow> x | None \<Rightarrow> 0)"

text \<open>The decisive collapse: the three scores after the \<open>if\<close>/\<open>elif\<close>/\<open>else\<close>.
  (The \<open>string_score\<close> computed before it, \<open>max(0, 1.0 - date_score - number_score)\<close>,
  is overwritten in each of the three branches.)\<close>

definition collapse :: "rat \<Rightarrow> rat \<Rightarrow> (string \<times> rat) list" where
  "collapse date_score number_score =
     (if date_score > 1 / 2 then [(''string'', 0), (''number'', 0), (''date'', 1)]
      else if number_score > 1 / 2 then [(''string'', 0), (''number'', 1), (''date'', 0)]
      else [(''string'', 1), (''number'', 0), (''date'', 0)])"

definition analyze_column :: "pystr option list \<Rightarrow> py_exn + classification" where
  "analyze_column cells =
     (let clean_data = dropna cells in
      if length clean_data = 0
      then Inr \<lparr>type' = ''unknown'', confidence = 0,
                scores = [(''string'', 0), (''number'', 0), (''date'', 0)]\<rparr>
      else
        then_exn (u_detect_date_format clean_data) (\<lambda>date_score.
          then_exn (u_detect_number_format clean_data) (\<lambda>number_score.
            let sc = collapse date_score number_score;
                best_type = py_max_key sc
            in Inr \<lparr>type' = best_type, confidence = score_of sc best_type, scores = sc\<rparr>)))"

text \<open>The calendar date of a result: year, month and day of a successful parse.\<close>

definition result_ymd :: "py_exn + date_result \<Rightarrow> (int \<times> int \<times> int) option" where
  "result_ymd r = (case r of Inr (Date d) \<Rightarrow> Some (year d, month d, day d) | _ \<Rightarrow> None)"

section \<open>Evaluation lemmas\<close>

text \<open>Equations for computing \<open>bit_length\<close> and the floor of a fraction.\<close>

lemma floor_rat_numeral: "\<lfloor>numeral a / numeral b :: rat\<rfloor> = numeral a div numeral b"
  using floor_divide_of_int_eq [of "numeral a" "numeral b", where ?'a = rat] by simp

lemma bit_length_0: "bit_length 0 = 0"
  by (simp add: bit_length.simps)

lemma bit_length_1: "bit_length (Suc 0) = 1"
  by (simp add: bit_length.simps)

lemma bit_length_numeral: "bit_length (numeral n) = Suc (bit_length (numeral n div 2))"
  by (subst bit_length.simps) simp

text \<open>The defining equations, grouped for the evaluation of the functions on a given
  text.\<close>

lemmas str_eval = str_def is_space_def decimal_zeros_def decimal_value_def is_digit_def
  word_ranges_def is_word_def upper_special_def lower_special_def upper_char_def lower_char_def
  upper_def lower_def ascii_upper_def ascii_lower_def strip_def startswith_def endswith_def
  replace_char_def split_def

lemmas round_eval = fl_round_def fl_round_pos_def round_half_even_def binary_exponent_def
  pow2_def bit_length_0 bit_length_1 bit_length_numeral floor_rat_numeral Let_def

lemmas float_eval = ascii_digit_def ascii_space_def to_ascii_def ascii_strip_def float_exponent_def
  pow10_def float_number_def py_float_def digits_val_def py_int_str_def round_eval

lemmas re_eval = run_length_def re_match_def Lit_def Lit_ci_def

lemmas amount_eval = currency_symbols_def abbreviation_multipliers_def european_pattern_def
  grouping_dot_pattern_def thousand_separator_pattern_def normalize_currency_def
  negative_form_def handle_special_formats_def u_is_special_format_def
  u_handle_special_formats_def u_parse_normalized_amount_def parse_amount_def

lemmas date_eval = is_leap_def days_before_year_def DAYS_IN_MONTH_def DAYS_BEFORE_MONTH_def
  days_in_month_def days_before_month_def ymd2ord_def ord2ymd_def py_datetime_def add_days_def
  date_patterns_def quarter_pattern_def quarter_short_pattern_def month_year_pattern_def
  month_abbrevs_def month_names_def month_get_def u_month_abbrev_to_num_def
  u_month_name_to_num_def then_exn_def date_dict_def u_is_excel_serial_date_def
  excel_serial_body_def u_parse_excel_serial_date_def pattern_datetime_def
  u_parse_date_pattern_def quarter_dict_def quarter_body_def u_parse_quarter_format_def
  month_year_body_def u_parse_month_year_format_def parse_date_body_def parse_date_def
  dateutil_rejects_def

lemmas detector_eval = dropna_def detector_date_patterns_def matches_date_pattern_def
  is_serial_integer_def u_detect_date_format_def abbreviated_number_pattern_def
  counts_as_number_def u_detect_number_format_def py_max_key_def score_of_def collapse_def
  analyze_column_def then_exn_def

subsection \<open>\<open>float\<close> on some texts\<close>

text \<open>
  \<open>float\<close> reads the decimal digits of every script: the Arabic-Indic digit one,
  U+0661, is 1. It strips the whitespace of \<open>str.isspace\<close> except the separators
  U+001C to U+001F: the figure space U+2007 is stripped, the file separator U+001C
  is not, although \<open>str.strip\<close> removes it. The number is rounded to the nearest
  double: \<open>44927.00000000000001\<close> is the integer 44927, a serial date for
  \<open>_detect_date_format\<close>.
\<close>

lemma float_reads_every_decimal_digit: "py_float [1633] = Inr (Fin 1)"
  by (simp add: str_eval float_eval)

lemma float_strips_figure_space: "py_float [49, 8199] = Inr (Fin 1)"
  by (simp add: str_eval float_eval)

lemma float_keeps_file_separator:
  "py_float [49, 28] = Inl ValueError \<and> strip [49, 28] = [49]"
  by (simp add: str_eval float_eval)

lemma float_rounds_to_nearest:
  "py_float (str ''44927.00000000000001'') = Inr (Fin 44927)
   \<and> py_float (str ''0.1'') = Inr (Fin (3602879701896397 / 36028797018963968))"
  by (simp add: str_eval float_eval)

lemma serial_test_after_rounding:
  "is_serial_integer (str ''44927.00000000000001'') = Inr True"
  by (simp add: str_eval float_eval detector_eval)

section \<open>Facts about strings and the abbreviation letters\<close>

lemma endswith_single: "endswith s [c] \<longleftrightarrow> s \<noteq> [] \<and> last s = c"
  by (cases s rule: rev_cases) (simp_all add: endswith_def)

lemma upper_char_not_Nil: "upper_char c \<noteq> []"
  by (simp add: upper_char_def upper_special_def)

lemma endswith_upper_single:
  "endswith (upper s) [c] \<longleftrightarrow> s \<noteq> [] \<and> last (upper_char (last s)) = c"
proof (cases s rule: rev_cases)
  case Nil
  then show ?thesis by (simp add: endswith_def upper_def)
next
  case (snoc ys y)
  then show ?thesis by (simp add: endswith_single upper_def upper_char_not_Nil)
qed

text \<open>The characters whose uppercase ends in K, M, B or T: the eight ASCII letters and
  the two ligatures U+FB05 and U+FB06, whose uppercase is \<open>ST\<close>.\<close>

lemma abbreviation_letter_cases:
  assumes "last (upper_char c) \<in> {75, 77, 66, 84}"
  shows "c \<in> {75, 77, 66, 84, 107, 109, 98, 116, 64261, 64262}"
proof (cases "97 \<le> c \<and> c \<le> 122")
  case True
  with assms have "c - 32 \<in> {75, 77, 66, 84}" by (simp add: upper_char_def)
  with True show ?thesis by auto
next
  case False
  with assms show ?thesis
    by (auto simp: upper_char_def upper_special_def split: if_splits)
qed

lemma py_float_abbreviation_letter:
  assumes "last (upper_char c) \<in> {75, 77, 66, 84}"
  shows "py_float [c] = Inl ValueError"
proof -
  from abbreviation_letter_cases [OF assms]
  consider "c = 75" | "c = 77" | "c = 66" | "c = 84" | "c = 107" | "c = 109" | "c = 98" | "c = 116"
    | "c = 64261" | "c = 64262"
    by auto
  then show ?thesis
    by cases (simp_all add: str_eval float_eval)
qed

lemma special_Nil: "u_is_special_format [] = False"
  by (simp add: str_eval amount_eval)

lemma normalized_Nil:
  "u_parse_normalized_amount (normalize_currency []) =
     Inr (Amount_error (Invalid_numeric_format ValueError) None)"
  by (simp add: str_eval float_eval re_eval amount_eval)

lemma date_body_Nil:
  "parse_date_body dateutil [] =
     (case dateutil [] of
        Some parsed \<Rightarrow> Inr (Date (date_dict ''dateutil_parsed'' parsed))
      | None \<Rightarrow> Inr (Date_error None (Unrecognized_date_format []) (Some [])))"
  by (simp add: str_eval float_eval re_eval date_eval split: option.split)

section \<open>The claims about \<open>parse_amount\<close>\<close>

text \<open>
  Claim C1 (sign invariant) fails on the abbreviated-suffix rule: on \<open>-1.5M\<close> the
  parser succeeds with the negative \<open>parsed_value\<close> \<open>-1500000\<close> and \<open>is_negative\<close>
  \<open>False\<close>. The rule multiplies the signed base value and takes no absolute value,
  where the parenthesised, the trailing-minus and the standard rule all do.
\<close>

theorem abbreviated_negative_keeps_sign:
  "parse_amount (Some (str ''-1.5M'')) =
     Inr (Amount \<lparr>parsed_value = Fin (- 1500000), currency = None, is_negative = False,
       format = None, abbreviation' = Some 77, multiplier = Some 1000000,
       base_value = Some (Fin (- (3 / 2)))\<rparr>)"
  by (simp add: str_eval float_eval re_eval amount_eval)

text \<open>
  Claim C8 (European-separator boundary) fails where the point is followed by more
  than three digits: the patterns \<open>[\d,]+\.\d{3}\<close> and \<open>(\d+)\.(\d{3})\<close> ask for three
  digits after the point and not for the end of the digits, so \<open>1.2345\<close> loses its
  point and is parsed as \<open>12345\<close>. With fewer than three digits the point is kept:
  \<open>12.45\<close> is the double nearest to \<open>1245 / 100\<close>, which is
  \<open>3504363460047667 / 2^48\<close>.
\<close>

theorem dot_before_four_digits_is_dropped:
  "parse_amount (Some (str ''1.2345'')) =
     Inr (Amount \<lparr>parsed_value = Fin 12345, currency = None, is_negative = False,
       format = Some ''standard'', abbreviation' = None, multiplier = None,
       base_value = None\<rparr>)
   \<and> parse_amount (Some (str ''12.45'')) =
     Inr (Amount \<lparr>parsed_value = Fin (3504363460047667 / 281474976710656),
       currency = None, is_negative = False, format = Some ''standard'',
       abbreviation' = None, multiplier = None, base_value = None\<rparr>)"
  by (simp add: str_eval float_eval re_eval amount_eval)

text \<open>
  Claim C10 (abbreviated-suffix dead end): when the trimmed text ends, in either case,
  in one of K, M, B, T (the code points 75, 77, 66, 84; the test of the code is
  \<open>value.upper().endswith(abbrev)\<close>) and \<open>float\<close> rejects the text before its last
  character, the text is a special format and \<open>parse_amount\<close> returns the error
  \<open>Unrecognized special format\<close> of \<open>handle_special_formats\<close>; the standard path
  (\<open>normalize_currency\<close>, \<open>_parse_normalized_amount\<close>) is not taken. Such a text is
  neither parenthesised nor ends in a minus, since it ends in a letter. The theorem
  holds for every text, of whatever characters.
\<close>

theorem abbreviated_suffix_dead_end:
  assumes a: "a \<in> {75, 77, 66, 84}"
    and e: "endswith (upper (strip v)) [a]"
    and f: "py_float (butlast (strip v)) = Inl ValueError"
  shows "u_is_special_format (strip v) \<and>
    parse_amount (Some v) = Inr (Amount_error (Unrecognized_special_format (strip v)) None)"
proof -
  define s where "s = strip v"
  from e have ne: "s \<noteq> []" and up: "last (upper_char (last s)) = a"
    by (simp_all add: endswith_upper_single s_def)
  have vne: "v \<noteq> []" using ne by (auto simp: s_def strip_def)
  have f1: "1 < length s \<Longrightarrow> py_float (butlast s) = Inl ValueError"
    using f by (simp add: s_def)
  have f2: "\<not> 1 < length s \<Longrightarrow> py_float s = Inl ValueError"
  proof -
    assume "\<not> 1 < length s"
    with ne obtain c where sc: "s = [c]" by (cases s) auto
    with up a have "last (upper_char c) \<in> {75, 77, 66, 84}" by simp
    then show ?thesis using sc by (simp add: py_float_abbreviation_letter)
  qed
  have loop: "abbreviated_loop abbreviation_multipliers s = None"
    by (simp add: abbreviation_multipliers_def Let_def f1 f2)
  from up a have "last (upper_char (last s)) \<in> {75, 77, 66, 84}" by simp
  then have "last s \<in> {75, 77, 66, 84, 107, 109, 98, 116, 64261, 64262}"
    by (rule abbreviation_letter_cases)
  then have l41: "\<not> endswith s [41]" and l45: "\<not> endswith s [45]"
    by (auto simp: endswith_single)
  have special: "u_is_special_format s"
    using a ne up
    by (auto simp: u_is_special_format_def abbreviation_multipliers_def endswith_upper_single)
  have "handle_special_formats s = Inr (Amount_error (Unrecognized_special_format s) None)"
    by (simp add: handle_special_formats_def loop l41 l45)
  with special vne show ?thesis
    by (simp add: parse_amount_def u_handle_special_formats_def s_def [symmetric] Let_def)
qed

text \<open>Witness for C10: the text \<open>$2K\<close> ends in K, \<open>float\<close> rejects \<open>$2\<close>, and the
  result is the error of the special-format handler.\<close>

theorem abbreviated_suffix_dead_end_witness:
  "(75::nat) \<in> {75, 77, 66, 84} \<and> endswith (upper (strip (str ''$2K''))) [75]
   \<and> py_float (butlast (strip (str ''$2K''))) = Inl ValueError
   \<and> u_is_special_format (strip (str ''$2K''))
   \<and> parse_amount (Some (str ''$2K'')) =
       Inr (Amount_error (Unrecognized_special_format (strip (str ''$2K''))) None)"
proof -
  have a: "(75::nat) \<in> {75, 77, 66, 84}" by simp
  have e: "endswith (upper (strip (str ''$2K''))) [75]" by (simp add: str_eval)
  have f: "py_float (butlast (strip (str ''$2K''))) = Inl ValueError"
    by (simp add: str_eval float_eval)
  from abbreviated_suffix_dead_end [OF a e f] a e f show ?thesis by simp
qed

text \<open>
  The hypothesis on \<open>float\<close> decides. The text of U+0661 and \<open>K\<close> is the amount
  1000, since \<open>float\<close> reads the digit; the text \<open>1\<close>, U+001C, \<open>K\<close> is the dead end,
  since \<open>float\<close> rejects the separator that it does not strip.
\<close>

lemma abbreviated_arabic_indic_digit:
  "parse_amount (Some [1633, 75]) =
     Inr (Amount \<lparr>parsed_value = Fin 1000, currency = None, is_negative = False,
       format = None, abbreviation' = Some 75, multiplier = Some 1000,
       base_value = Some (Fin 1)\<rparr>)"
  by (simp add: str_eval float_eval re_eval amount_eval)

lemma abbreviated_after_file_separator:
  "parse_amount (Some [49, 28, 75]) =
     Inr (Amount_error (Unrecognized_special_format [49, 28, 75]) None)"
  by (simp add: str_eval float_eval re_eval amount_eval)

subsection \<open>The sign outside the abbreviations\<close>

lemma fl_abs_not_negative: "fl_le (Fin 0) (fl_abs x) \<or> fl_abs x = NaN"
  by (cases x) simp_all

lemma abbreviated_loop_result:
  "abbreviated_loop tbl s = Some (Inr (Amount a)) \<Longrightarrow> abbreviation' a \<noteq> None"
  by (induction tbl s rule: abbreviated_loop.induct)
     (auto simp: Let_def split: if_splits sum.splits py_exn.splits)

lemma negative_form_result:
  "negative_form tag inner = Some (Inr (Amount a)) \<Longrightarrow>
   is_negative a \<and> (\<exists>x. parsed_value a = fl_abs x)"
  by (auto simp: negative_form_def split: sum.splits py_exn.splits)

lemma handle_special_formats_result:
  assumes "handle_special_formats s = Inr (Amount a)" and "abbreviation' a = None"
  shows "\<exists>x. parsed_value a = fl_abs x"
  using assms
  by (auto simp: handle_special_formats_def split: option.splits if_splits
      dest: abbreviated_loop_result negative_form_result)

lemma parse_normalized_amount_result:
  "u_parse_normalized_amount s = Inr (Amount a) \<Longrightarrow> \<exists>x. parsed_value a = fl_abs x"
  by (auto simp: u_parse_normalized_amount_def Let_def split: sum.splits py_exn.splits)

text \<open>
  The sign invariant on the other rules: a successful result without an abbreviation
  (the parenthesised, the trailing-minus and the standard rule) has a
  \<open>parsed_value\<close> that is an absolute value, so it is \<open>\<ge> 0\<close> or a NaN (the text
  \<open>nan\<close> is accepted by \<open>float\<close>).
\<close>

theorem sign_invariant_outside_abbreviations:
  assumes "parse_amount v = Inr (Amount a)" and "abbreviation' a = None"
  shows "fl_le (Fin 0) (parsed_value a) \<or> parsed_value a = NaN"
proof -
  from assms(1) obtain s where v: "v = Some s" and ne: "s \<noteq> []"
    by (auto simp: parse_amount_def split: option.splits if_splits)
  have "\<exists>x. parsed_value a = fl_abs x"
  proof (cases "u_is_special_format (strip s)")
    case True
    with assms(1) v ne have "handle_special_formats (strip s) = Inr (Amount a)"
      by (auto simp: parse_amount_def u_handle_special_formats_def Let_def split: sum.splits)
    then show ?thesis using assms(2) by (rule handle_special_formats_result)
  next
    case False
    with assms(1) v ne
    have "u_parse_normalized_amount (normalize_currency (strip s)) = Inr (Amount a)"
      by (auto simp: parse_amount_def Let_def split: sum.splits)
    then show ?thesis by (rule parse_normalized_amount_result)
  qed
  then obtain x where "parsed_value a = fl_abs x" by blast
  with fl_abs_not_negative [of x] show ?thesis by simp
qed

text \<open>Witness: \<open>(2,500.00)\<close> is parsed as 2500 with \<open>is_negative\<close> \<open>True\<close>.\<close>

theorem sign_invariant_witness:
  "parse_amount (Some (str ''(2,500.00)'')) =
     Inr (Amount \<lparr>parsed_value = Fin 2500, currency = None, is_negative = True,
       format = Some ''parentheses_negative'', abbreviation' = None, multiplier = None,
       base_value = None\<rparr>)
   \<and> fl_le (Fin 0) (Fin 2500)"
proof -
  have p: "parse_amount (Some (str ''(2,500.00)'')) =
     Inr (Amount \<lparr>parsed_value = Fin 2500, currency = None, is_negative = True,
       format = Some ''parentheses_negative'', abbreviation' = None, multiplier = None,
       base_value = None\<rparr>)"
    by (simp add: str_eval float_eval re_eval amount_eval)
  from sign_invariant_outside_abbreviations [OF p] p show ?thesis by simp
qed

subsection \<open>Plain decimals\<close>

lemma ascii_digit_is_digit: "ascii_digit c \<Longrightarrow> is_digit c"
  by (auto simp: ascii_digit_def is_digit_def decimal_value_def)

lemma is_digit_cases: "is_digit c \<Longrightarrow> (48 \<le> c \<and> c \<le> 57) \<or> 128 \<le> c"
  by (auto simp: is_digit_def decimal_value_def split: if_splits)

lemma not_digit: "\<not> is_digit 46" "\<not> is_digit 44"
  by (simp_all add: is_digit_def decimal_value_def)

lemma digit_not_space: "ascii_digit c \<Longrightarrow> \<not> is_space c"
  by (auto simp: ascii_digit_def is_space_def)

lemma try_prefixes_None:
  assumes "\<And>r. P r \<Longrightarrow> cont r = None"
    and "P rest"
    and "\<And>c r. c \<in> set pre \<Longrightarrow> P r \<Longrightarrow> P (c # r)"
  shows "try_prefixes cont cap lo pre rest = None"
  using assms(2,3)
proof (induction pre arbitrary: rest)
  case Nil
  then show ?case using assms(1) by simp
next
  case (Cons c pre)
  have "cont rest = None" using Cons.prems(1) assms(1) by blast
  moreover have "try_prefixes cont cap lo pre (c # rest) = None"
    by (rule Cons.IH) (auto intro: Cons.prems)
  ultimately show ?case by simp
qed

lemma lit_fails: "t = [] \<or> hd t \<noteq> c \<Longrightarrow> re_items (Lit c # its) t = None"
  by (cases t) (auto simp: Lit_def run_length_def)

text \<open>No comma, no thousands separator to remove.\<close>

lemma thousand_separator_no_match:
  assumes "44 \<notin> set t"
  shows "re_items thousand_separator_pattern t = None"
proof -
  have "try_prefixes (\<lambda>u. re_items [Lit 44, Grp is_digit 3 (Some 3)] u) True 1
      (rev (take (run_length is_digit (Some 1) t) t)) (drop (run_length is_digit (Some 1) t) t) = None"
  proof (rule try_prefixes_None [where P = "\<lambda>r. 44 \<notin> set r"])
    fix r :: pystr assume "44 \<notin> set r"
    then have "r = [] \<or> hd r \<noteq> 44" by (cases r) auto
    then show "re_items [Lit 44, Grp is_digit 3 (Some 3)] r = None" by (rule lit_fails)
  next
    show "44 \<notin> set (drop (run_length is_digit (Some 1) t) t)"
      using assms by (meson in_set_dropD)
  next
    fix c :: nat and r :: pystr
    assume "c \<in> set (rev (take (run_length is_digit (Some 1) t) t))" "44 \<notin> set r"
    then show "44 \<notin> set (c # r)" using assms by (auto dest: in_set_takeD)
  qed
  then show ?thesis by (simp add: thousand_separator_pattern_def)
qed

lemma re_sub_groups_no_match:
  "(\<And>p t. s = p @ t \<Longrightarrow> t \<noteq> [] \<Longrightarrow> re_items pat t = None) \<Longrightarrow> re_sub_groups pat 0 s = s"
proof (induction s)
  case Nil
  show ?case by simp
next
  case (Cons c cs)
  have "re_items pat (c # cs) = None" by (rule Cons.prems [of "[]"]) simp_all
  moreover have "re_sub_groups pat 0 cs = cs"
  proof (rule Cons.IH)
    fix p t assume "cs = p @ t" "t \<noteq> []"
    then show "re_items pat t = None" using Cons.prems [of "c # p" t] by simp
  qed
  ultimately show ?case by simp
qed

lemma re_search_no_match:
  "(\<And>p t. s = p @ t \<Longrightarrow> re_items pat t = None) \<Longrightarrow> re_search pat s = False"
proof (induction s)
  case Nil
  then show ?case by simp
next
  case (Cons c cs)
  have "re_items pat (c # cs) = None" by (rule Cons.prems [of "[]"]) simp
  moreover have "re_search pat cs = False"
  proof (rule Cons.IH)
    fix p t assume "cs = p @ t"
    then show "re_items pat t = None" using Cons.prems [of "c # p" t] by simp
  qed
  ultimately show ?case by simp
qed

text \<open>The European pattern on the tail of a plain decimal.\<close>

lemma european_no_match:
  assumes da: "list_all is_digit a'" and db: "list_all is_digit b" and lb: "length b < 3"
  shows "re_items european_pattern (a' @ 46 # b) = None"
proof -
  let ?p = "\<lambda>c. is_digit c \<or> c = 44"
  let ?t = "a' @ 46 # b"
  have tw: "takeWhile ?p ?t = a'"
    using da by (simp add: takeWhile_append2 list_all_iff not_digit)
  have dot: "re_items [Lit 46, Rep is_digit 3 (Some 3)] (46 # b) = None"
  proof -
    have "run_length is_digit (Some 3) b = length b"
      using db lb by (simp add: run_length_def list_all_iff takeWhile_eq_all_conv [THEN iffD2])
    then show ?thesis using lb by (simp add: Lit_def run_length_def)
  qed
  have "try_prefixes (\<lambda>u. re_items [Lit 46, Rep is_digit 3 (Some 3)] u) False 1
      (rev (take (run_length ?p None ?t) ?t)) (drop (run_length ?p None ?t) ?t) = None"
  proof (rule try_prefixes_None [where P = "\<lambda>r. \<exists>ds. list_all is_digit ds \<and> r = ds @ 46 # b"])
    fix r :: pystr assume "\<exists>ds. list_all is_digit ds \<and> r = ds @ 46 # b"
    then obtain ds where ds: "list_all is_digit ds" "r = ds @ 46 # b" by blast
    show "re_items [Lit 46, Rep is_digit 3 (Some 3)] r = None"
    proof (cases ds)
      case Nil
      with ds dot show ?thesis by simp
    next
      case (Cons d ds')
      with ds have "hd r \<noteq> 46" by (auto dest: is_digit_cases)
      then show ?thesis by (simp add: lit_fails)
    qed
  next
    show "\<exists>ds. list_all is_digit ds \<and> drop (run_length ?p None ?t) ?t = ds @ 46 # b"
      by (rule exI [of _ "[]"]) (simp add: run_length_def tw)
  next
    fix c :: nat and r :: pystr
    assume c: "c \<in> set (rev (take (run_length ?p None ?t) ?t))"
      and "\<exists>ds. list_all is_digit ds \<and> r = ds @ 46 # b"
    then obtain ds where ds: "list_all is_digit ds" "r = ds @ 46 # b" by blast
    from c have "c \<in> set a'" by (simp add: run_length_def tw)
    with da have "is_digit c" by (simp add: list_all_iff)
    with ds show "\<exists>ds. list_all is_digit ds \<and> c # r = ds @ 46 # b"
      by (intro exI [of _ "c # ds"]) simp
  qed
  then show ?thesis by (simp add: european_pattern_def)
qed

lemma european_no_match_digits:
  assumes db: "list_all is_digit b"
  shows "re_items european_pattern b = None"
proof -
  let ?p = "\<lambda>c. is_digit c \<or> c = 44"
  have "try_prefixes (\<lambda>u. re_items [Lit 46, Rep is_digit 3 (Some 3)] u) False 1
      (rev (take (run_length ?p None b) b)) (drop (run_length ?p None b) b) = None"
  proof (rule try_prefixes_None [where P = "list_all is_digit"])
    fix r :: pystr assume "list_all is_digit r"
    then have "r = [] \<or> hd r \<noteq> 46" by (cases r) (auto dest: is_digit_cases)
    then show "re_items [Lit 46, Rep is_digit 3 (Some 3)] r = None" by (rule lit_fails)
  next
    show "list_all is_digit (drop (run_length ?p None b) b)"
      using db by (auto simp: list_all_iff dest: in_set_dropD)
  next
    fix c :: nat and r :: pystr
    assume "c \<in> set (rev (take (run_length ?p None b) b))" "list_all is_digit r"
    then show "list_all is_digit (c # r)" using db by (auto simp: list_all_iff dest: in_set_takeD)
  qed
  then show ?thesis by (simp add: european_pattern_def)
qed


lemma suffix_of_decimal:
  assumes "a @ 46 # b = p @ t" and "list_all is_digit a" and "list_all is_digit b"
  shows "(\<exists>a'. list_all is_digit a' \<and> t = a' @ 46 # b) \<or> list_all is_digit t"
proof -
  from assms(1) consider us where "a = p @ us" "us @ 46 # b = t"
    | us where "a @ us = p" "46 # b = us @ t"
    by (auto simp: append_eq_append_conv2)
  then show ?thesis
  proof cases
    case 1
    with assms(2) show ?thesis by auto
  next
    case 2
    then show ?thesis using assms(3) by (cases us) auto
  qed
qed

lemma normalize_currency_decimal:
  assumes da: "list_all is_digit a" and db: "list_all is_digit b" and lb: "length b < 3"
  shows "normalize_currency (a @ 46 # b) = a @ 46 # b"
proof -
  let ?s = "a @ 46 # b"
  have "re_search european_pattern ?s = False"
  proof (rule re_search_no_match)
    fix p t assume "?s = p @ t"
    from suffix_of_decimal [OF this da db]
    show "re_items european_pattern t = None"
      using db lb by (auto simp: european_no_match european_no_match_digits)
  qed
  moreover have "re_sub_groups thousand_separator_pattern 0 ?s = ?s"
  proof (rule re_sub_groups_no_match)
    fix p t assume "?s = p @ t"
    then have "set t \<subseteq> set ?s" by (metis set_append sup_ge2)
    moreover have "44 \<notin> set ?s" using da db not_digit by (auto simp: list_all_iff)
    ultimately have "44 \<notin> set t" by blast
    then show "re_items thousand_separator_pattern t = None"
      by (rule thousand_separator_no_match)
  qed
  ultimately show ?thesis by (simp add: normalize_currency_def)
qed

lemma drop_underscores_none:
  "95 \<notin> set s \<Longrightarrow> prev \<noteq> 95 \<Longrightarrow> drop_underscores prev s = Some s"
  by (induction s arbitrary: prev) auto

lemma digits_val_append:
  "digits_val (a @ b) = digits_val a * 10 ^ length b + digits_val b"
proof -
  define f :: "nat \<Rightarrow> nat \<Rightarrow> nat" where "f = (\<lambda>x c. 10 * x + (c - 48))"
  have f: "f x c = 10 * x + (c - 48)" for x c by (simp add: f_def)
  have "foldl f n b = n * 10 ^ length b + foldl f 0 b" for n
  proof (induction b arbitrary: n rule: rev_induct)
    case Nil
    show ?case by simp
  next
    case (snoc c b)
    have "foldl f n (b @ [c]) = 10 * foldl f n b + (c - 48)" by (simp add: f)
    also have "\<dots> = 10 * (n * 10 ^ length b + foldl f 0 b) + (c - 48)"
      by (simp only: snoc.IH [of n])
    also have "\<dots> = n * 10 ^ length (b @ [c]) + foldl f 0 (b @ [c])"
      by (simp add: f algebra_simps)
    finally show ?case .
  qed
  from this [of "foldl f 0 a"] show ?thesis by (simp add: digits_val_def f_def)
qed

lemma float_number_decimal:
  assumes ne: "a \<noteq> []" and da: "list_all ascii_digit a" and db: "list_all ascii_digit b"
  shows "float_number (a @ 46 # b) =
    Some (of_nat (digits_val a) + of_nat (digits_val b) / 10 ^ length b)"
proof -
  have tw: "takeWhile ascii_digit (a @ 46 # b) = a"
    using da by (simp add: takeWhile_append2 list_all_iff ascii_digit_def)
  have dw: "dropWhile ascii_digit (a @ 46 # b) = 46 # b"
    using da by (simp add: dropWhile_append2 list_all_iff ascii_digit_def)
  have twb: "takeWhile ascii_digit b = b" and dwb: "dropWhile ascii_digit b = []"
    using db by (simp_all add: list_all_iff)
  have "pow10 (0 - int (length b)) = 1 / 10 ^ length b"
    by (simp add: pow10_def)
  then show ?thesis
    using ne by (simp add: float_number_def tw dw twb dwb float_exponent_def Let_def
        digits_val_append add_divide_distrib)
qed

lemma decimal_last:
  "list_all ascii_digit b \<Longrightarrow> last (a @ 46 # b) = 46 \<or> ascii_digit (last (a @ 46 # b))"
  by (cases b rule: rev_cases) auto

lemma strip_decimal:
  assumes ne: "a \<noteq> []" and da: "list_all ascii_digit a" and db: "list_all ascii_digit b"
  shows "strip (a @ 46 # b) = a @ 46 # b"
proof -
  let ?s = "a @ 46 # b"
  obtain c a' where a: "a = c # a'" using ne by (cases a) auto
  with da have c: "ascii_digit c" by simp
  from decimal_last [OF db, of a] have last_ok: "\<not> is_space (last ?s)"
    using digit_not_space [of "last ?s"] by (auto simp: is_space_def)
  have "dropWhile is_space ?s = ?s" using a c by (simp add: digit_not_space)
  moreover have "dropWhile is_space (rev ?s) = rev ?s"
    using last_ok by (metis dropWhile_eq_self_iff hd_rev)
  ultimately show ?thesis by (simp add: strip_def)
qed

lemma to_ascii_id: "list_all (\<lambda>c. c < 127) s \<Longrightarrow> to_ascii s = s"
  by (auto simp: to_ascii_def list_all_iff)

lemma ascii_strip_decimal:
  assumes ne: "a \<noteq> []" and da: "list_all ascii_digit a" and db: "list_all ascii_digit b"
  shows "ascii_strip (to_ascii (a @ 46 # b)) = a @ 46 # b"
proof -
  let ?s = "a @ 46 # b"
  obtain c a' where a: "a = c # a'" using ne by (cases a) auto
  with da have c: "ascii_digit c" by simp
  have "list_all (\<lambda>c. c < 127) ?s"
    using da db by (auto simp: list_all_iff ascii_digit_def)
  then have ta: "to_ascii ?s = ?s" by (rule to_ascii_id)
  from decimal_last [OF db, of a] have last_ok: "\<not> ascii_space (last ?s)"
    by (auto simp: ascii_space_def ascii_digit_def)
  have "dropWhile ascii_space ?s = ?s" using a c by (simp add: ascii_space_def ascii_digit_def)
  moreover have "dropWhile ascii_space (rev ?s) = rev ?s"
    using last_ok by (metis dropWhile_eq_self_iff hd_rev)
  ultimately show ?thesis by (simp add: ascii_strip_def ta)
qed

lemma py_float_decimal:
  assumes ne: "a \<noteq> []" and da: "list_all ascii_digit a" and db: "list_all ascii_digit b"
  shows "py_float (a @ 46 # b) =
    Inr (fl_round (of_nat (digits_val a) + of_nat (digits_val b) / 10 ^ length b))"
proof -
  let ?s = "a @ 46 # b"
  obtain c a' where a: "a = c # a'" using ne by (cases a) auto
  with da have c: "ascii_digit c" by simp
  note st = ascii_strip_decimal [OF ne da db]
  have "95 \<notin> set ?s" using da db by (auto simp: list_all_iff ascii_digit_def)
  then have du: "drop_underscores 0 ?s = Some ?s" by (simp add: drop_underscores_none)
  have ts: "take_sign ?s = (False, ?s)" using a c by (simp add: ascii_digit_def)
  have "hd (map ascii_lower ?s) = c" using a c by (simp add: ascii_lower_def ascii_digit_def)
  then have nl: "map ascii_lower ?s \<noteq> str ''inf''" "map ascii_lower ?s \<noteq> str ''infinity''"
    "map ascii_lower ?s \<noteq> str ''nan''"
    using c by (auto simp: str_def ascii_digit_def)
  show ?thesis
    by (simp only: py_float_def st du ts nl float_number_decimal [OF ne da db]
        option.case prod.case if_False simp_thms)
qed

lemma special_format_decimal:
  assumes db: "list_all ascii_digit b"
  shows "u_is_special_format (a @ 46 # b) = False"
proof -
  define s where "s = a @ 46 # b"
  define l where "l = last s"
  have ne: "s \<noteq> []" by (simp add: s_def)
  from decimal_last [OF db, of a] have l: "l = 46 \<or> ascii_digit l" by (simp add: l_def s_def)
  then have up: "upper_char l = [l]"
    by (auto simp: upper_char_def upper_special_def ascii_digit_def)
  from l have nl: "l \<notin> {75, 77, 66, 84, 41, 45}" by (auto simp: ascii_digit_def)
  have e1: "\<not> endswith (upper s) [c]" if "c \<in> {75, 77, 66, 84}" for c
    using that up nl by (auto simp: endswith_upper_single l_def [symmetric])
  have e2: "\<not> endswith s [41]" "\<not> endswith s [45]"
    using nl by (auto simp: endswith_single l_def [symmetric])
  show ?thesis
    unfolding s_def [symmetric]
    by (simp add: u_is_special_format_def abbreviation_multipliers_def e1 e2)
qed

text \<open>The rounding keeps the sign: what is not negative stays so.\<close>

lemma pow2_pos: "0 < pow2 e"
  by (simp add: pow2_def)

lemma round_half_even_nonneg: "0 \<le> x \<Longrightarrow> 0 \<le> round_half_even x"
  by (auto simp: round_half_even_def Let_def)

lemma fl_round_pos_nonneg:
  assumes "0 < q"
  shows "fl_abs (fl_round_pos q) = fl_round_pos q \<and> \<not> fl_lt (fl_round_pos q) (Fin 0)"
proof -
  define e where "e = max (binary_exponent q) (- 1022)"
  define n where "n = round_half_even (q / pow2 (e - 52))"
  have "0 \<le> q / pow2 (e - 52)" using assms pow2_pos [of "e - 52"] by simp
  then have "0 \<le> n" unfolding n_def by (rule round_half_even_nonneg)
  then have "0 \<le> of_int n * pow2 (e - 52)" using pow2_pos [of "e - 52"] by simp
  then show ?thesis
    by (simp add: fl_round_pos_def Let_def e_def [symmetric] n_def [symmetric])
qed

lemma fl_round_nonneg:
  assumes "0 \<le> q"
  shows "fl_abs (fl_round q) = fl_round q \<and> \<not> fl_lt (fl_round q) (Fin 0)"
  using assms fl_round_pos_nonneg [of q] by (cases "q = 0") (simp_all add: fl_round_def)


text \<open>
  The part of C8 that holds: a plain decimal, ASCII digits, a point and fewer than
  three ASCII digits, keeps its point. It is no special format, \<open>normalize_currency\<close>
  leaves it as it is, and the result of the standard rule is the float of the literal
  decimal, the double nearest to it.
\<close>

theorem plain_decimal_keeps_its_point:
  assumes ne: "a \<noteq> []" and da: "list_all ascii_digit a" and db: "list_all ascii_digit b"
    and lb: "length b < 3"
  shows "parse_amount (Some (a @ 46 # b)) =
     Inr (Amount \<lparr>parsed_value =
            fl_round (of_nat (digits_val a) + of_nat (digits_val b) / 10 ^ length b),
          currency = None, is_negative = False, format = Some ''standard'',
          abbreviation' = None, multiplier = None, base_value = None\<rparr>)"
proof -
  define s where "s = a @ 46 # b"
  define q :: rat where "q = of_nat (digits_val a) + of_nat (digits_val b) / 10 ^ length b"
  have da': "list_all is_digit a" and db': "list_all is_digit b"
    using da db by (auto simp: list_all_iff ascii_digit_is_digit)
  have sub: "set s \<subseteq> insert 46 {48..57}"
    using da db by (auto simp: list_all_iff s_def ascii_digit_def)
  have nosym: "36 \<notin> set s" "8364 \<notin> set s" "8377 \<notin> set s" "163 \<notin> set s" "165 \<notin> set s"
    using sub by auto
  have cur: "find_currency currency_symbols s = None"
    by (simp add: currency_symbols_def nosym)
  have "\<And>c. c \<in> set s \<Longrightarrow> c \<notin> set (map fst currency_symbols)"
    using sub by (auto simp: currency_symbols_def)
  then have fil: "filter (\<lambda>c. c \<notin> set (map fst currency_symbols)) s = s"
    by (simp add: filter_id_conv)
  have q: "0 \<le> q" by (simp add: q_def)
  have pf: "py_float s = Inr (fl_round q)"
    unfolding s_def q_def by (rule py_float_decimal [OF ne da db])
  have std: "u_parse_normalized_amount s =
     Inr (Amount \<lparr>parsed_value = fl_round q,
          currency = None, is_negative = False, format = Some ''standard'',
          abbreviation' = None, multiplier = None, base_value = None\<rparr>)"
    unfolding u_parse_normalized_amount_def
    by (simp only: Let_def cur fil pf sum.case fl_round_nonneg [OF q])
  have st: "strip s = s" unfolding s_def by (rule strip_decimal [OF ne da db])
  have sp: "u_is_special_format s = False"
    unfolding s_def by (rule special_format_decimal [OF db])
  have nc: "normalize_currency s = s"
    unfolding s_def by (rule normalize_currency_decimal [OF da' db' lb])
  have sne: "s \<noteq> []" by (simp add: s_def)
  have "parse_amount (Some s) =
     Inr (Amount \<lparr>parsed_value = fl_round q,
          currency = None, is_negative = False, format = Some ''standard'',
          abbreviation' = None, multiplier = None, base_value = None\<rparr>)"
    unfolding parse_amount_def
    by (simp only: option.case sne if_False Let_def st sp nc std sum.case)
  then show ?thesis by (simp only: s_def q_def)
qed


text \<open>Witness: \<open>12.45\<close> is the double nearest to \<open>1245 / 100\<close>.\<close>

theorem plain_decimal_witness:
  "str ''12'' \<noteq> [] \<and> list_all ascii_digit (str ''12'') \<and> list_all ascii_digit (str ''45'')
   \<and> length (str ''45'') < 3
   \<and> parse_amount (Some (str ''12'' @ 46 # str ''45'')) =
     Inr (Amount \<lparr>parsed_value = Fin (3504363460047667 / 281474976710656),
       currency = None, is_negative = False, format = Some ''standard'',
       abbreviation' = None, multiplier = None, base_value = None\<rparr>)"
proof -
  have h: "str ''12'' \<noteq> []" "list_all ascii_digit (str ''12'')"
    "list_all ascii_digit (str ''45'')" "length (str ''45'') < 3"
    by (simp_all add: str_def ascii_digit_def)
  have v: "fl_round (of_nat (digits_val (str ''12''))
      + of_nat (digits_val (str ''45'')) / 10 ^ length (str ''45''))
      = Fin (3504363460047667 / 281474976710656)"
    by (simp add: str_def digits_val_def round_eval)
  from plain_decimal_keeps_its_point [OF h] h show ?thesis unfolding v by blast
qed

section \<open>The claims about \<open>parse_date\<close>\<close>

text \<open>
  Claim C2, as amended (Excel serial scenario): whatever \<open>dateutil\<close> does,
  \<open>parse_date\<close> of \<open>44927\<close> succeeds with the format tag \<open>excel_serial\<close>, the corrected
  serial number 44926 and the calendar date 2023-01-01 (1900-01-01 plus 44925 days).
\<close>

theorem excel_serial_44927_is_2023_01_01:
  "parse_date dateutil (Some (str ''44927'')) =
     Inr (Date \<lparr>date_value = \<lparr>dt_year = 2023, dt_month = 1, dt_day = 1\<rparr>,
       date_format = ''excel_serial'', year = 2023, month = 1, day = 1, quarter = None,
       serial_date = Some (Fin 44926), month_name = None\<rparr>)"
  by (simp add: str_eval float_eval re_eval date_eval Let_def)

text \<open>Witness for C2: the theorem at a \<open>dateutil\<close> that rejects every text.\<close>

theorem excel_serial_44927_witness:
  "result_ymd (parse_date dateutil_rejects (Some (str ''44927''))) = Some (2023, 1, 1)"
  using excel_serial_44927_is_2023_01_01 [of dateutil_rejects]
  by (simp add: result_ymd_def)

text \<open>Counterexample to C2 as stated: the date of \<open>44927\<close> is 2023-01-01, it is not
  2022-12-31.\<close>

theorem excel_serial_44927_not_2022_12_31:
  "result_ymd (parse_date dateutil_rejects (Some (str ''44927''))) = Some (2023, 1, 1)
   \<and> result_ymd (parse_date dateutil_rejects (Some (str ''44927''))) \<noteq> Some (2022, 12, 31)"
  by (simp add: str_eval float_eval re_eval date_eval Let_def result_ymd_def)

text \<open>
  Claim C3 (quarter scenario) fails: \<open>Q4 2023\<close> is no serial date, and when
  \<open>dateutil\<close> rejects it the loop over \<open>date_patterns\<close> matches the entry \<open>Quarter\<close>,
  which \<open>_parse_date_pattern\<close> does not support: the result is the error
  \<open>Unsupported pattern: Quarter\<close>. (When \<open>dateutil\<close> accepts it the tag is
  \<open>dateutil_parsed\<close>.) The step \<open>_parse_quarter_format\<close>, which would give the result
  of the claim, is never reached for this text.
\<close>

theorem quarter_text_hits_unsupported_pattern:
  "parse_date dateutil (Some (str ''Q4 2023'')) =
     (case dateutil (str ''Q4 2023'') of
        Some d \<Rightarrow> Inr (Date (date_dict ''dateutil_parsed'' d))
      | None \<Rightarrow> Inr (Date_error (Some ''Quarter'') (Unsupported_pattern ''Quarter'') None))
   \<and> u_parse_quarter_format (str ''Q4 2023'') =
       Date \<lparr>date_value = \<lparr>dt_year = 2023, dt_month = 10, dt_day = 1\<rparr>,
         date_format = ''quarter'', year = 2023, month = 10, day = 1, quarter = Some 4,
         serial_date = None, month_name = None\<rparr>"
  by (simp add: str_eval float_eval re_eval date_eval Let_def split: option.split)

section \<open>The claims about both parsers\<close>

text \<open>
  Claim C5, as amended (EmptyValue): for the null input and for the empty string both
  parsers return the error \<open>Empty value\<close>. The test stands before the trimming, so a
  non-empty text that is empty after trimming is not an empty value: \<open>parse_amount\<close>
  returns \<open>Invalid numeric format\<close> and \<open>parse_date\<close> does not return \<open>Empty value\<close>.
\<close>

theorem empty_value_on_null_or_empty_string:
  "parse_amount None = Inr (Amount_error Empty_value None)
   \<and> parse_amount (Some []) = Inr (Amount_error Empty_value None)
   \<and> parse_date dateutil None = Inr (Date_error None Empty_value None)
   \<and> parse_date dateutil (Some []) = Inr (Date_error None Empty_value None)
   \<and> (v \<noteq> [] \<and> strip v = [] \<longrightarrow>
        parse_amount (Some v) = Inr (Amount_error (Invalid_numeric_format ValueError) None)
        \<and> parse_date dateutil (Some v) \<noteq> Inr (Date_error None Empty_value None))"
  by (simp add: parse_amount_def parse_date_def special_Nil normalized_Nil date_body_Nil
      split: option.split)

text \<open>Witness for C5: three blanks are not empty, are empty after trimming, and give
  \<open>Invalid numeric format\<close>.\<close>

theorem empty_value_witness:
  "str ''   '' \<noteq> [] \<and> strip (str ''   '') = []
   \<and> parse_amount (Some (str ''   '')) =
       Inr (Amount_error (Invalid_numeric_format ValueError) None)
   \<and> parse_date dateutil_rejects (Some (str ''   '')) \<noteq> Inr (Date_error None Empty_value None)"
proof -
  have h: "str ''   '' \<noteq> [] \<and> strip (str ''   '') = []" by (simp add: str_eval)
  with empty_value_on_null_or_empty_string [of dateutil_rejects "str ''   ''"]
  show ?thesis by blast
qed

text \<open>Counterexample to C5 as stated: on three blanks neither parser returns
  \<open>Empty value\<close>.\<close>

theorem whitespace_only_is_not_empty_value:
  "strip (str ''   '') = []
   \<and> parse_amount (Some (str ''   '')) \<noteq> Inr (Amount_error Empty_value None)
   \<and> parse_date dateutil_rejects (Some (str ''   '')) \<noteq> Inr (Date_error None Empty_value None)"
  by (simp add: str_eval float_eval re_eval amount_eval date_eval)

text \<open>
  Claim C7 (totality): for every input, null or any text, and every behaviour of
  \<open>dateutil\<close>, \<open>parse_amount\<close> and \<open>parse_date\<close> return a dictionary; no exception
  leaves them.
\<close>

theorem parsers_total:
  "(\<exists>r. parse_amount v = Inr r) \<and> (\<exists>r. parse_date dateutil v = Inr r)"
  by (auto simp: parse_amount_def parse_date_def Let_def split: option.splits sum.splits)

section \<open>The claims about \<open>analyze_column\<close>\<close>

text \<open>
  Claim C9 (empty sample): when no cell is left after the null cells are discarded,
  \<open>analyze_column\<close> returns the type \<open>unknown\<close> with confidence 0 and the three scores
  0; it returns, nothing is raised.
\<close>

theorem empty_sample_is_unknown:
  "dropna cells = [] \<Longrightarrow>
   analyze_column cells =
     Inr \<lparr>type' = ''unknown'', confidence = 0,
          scores = [(''string'', 0), (''number'', 0), (''date'', 0)]\<rparr>"
  by (simp add: analyze_column_def)

text \<open>Witness for C9: a sample of two null cells.\<close>

theorem empty_sample_is_unknown_witness:
  "dropna [None, None] = []
   \<and> analyze_column [None, None] =
       Inr \<lparr>type' = ''unknown'', confidence = 0,
            scores = [(''string'', 0), (''number'', 0), (''date'', 0)]\<rparr>"
  using empty_sample_is_unknown [of "[None, None]"] by (simp add: dropna_def)

subsection \<open>The two scores\<close>

lemma py_float_raises_ValueError: "py_float s = Inl e \<Longrightarrow> e = ValueError"
  by (auto simp: py_float_def split: option.splits prod.splits if_splits)

lemma counts_as_number_returns: "\<exists>b. counts_as_number s = Inr b"
proof (cases "py_float (filter (\<lambda>c. c \<noteq> 45)
    (filter (\<lambda>c. c \<notin> {36, 8364, 8377, 163, 165, 44, 40, 41}) s))")
  case (Inl e)
  then have "e = ValueError" by (rule py_float_raises_ValueError)
  with Inl show ?thesis by (auto simp: counts_as_number_def Let_def)
next
  case (Inr x)
  then show ?thesis by (auto simp: counts_as_number_def Let_def)
qed

lemma number_excludes_grammar_date:
  "matches_date_pattern s \<Longrightarrow> counts_as_number s = Inr False"
  by (simp add: counts_as_number_def)

text \<open>The serial-date test raises on an infinity only (\<open>int\<close> of an infinity is an
  \<open>OverflowError\<close>, which \<open>except ValueError\<close> does not handle); so does the date loop.\<close>

lemma is_serial_integer_returns:
  assumes "py_float s \<notin> {Inr PInf, Inr NInf}"
  shows "\<exists>b. is_serial_integer s = Inr b"
proof (cases "py_float s")
  case (Inl e)
  then have "e = ValueError" by (rule py_float_raises_ValueError)
  with Inl show ?thesis by (auto simp: is_serial_integer_def)
next
  case (Inr x)
  with assms show ?thesis by (cases x) (auto simp: is_serial_integer_def)
qed

lemma date_count_loop_returns:
  "list_all (\<lambda>v. py_float (strip v) \<notin> {Inr PInf, Inr NInf}) vs \<Longrightarrow>
   \<exists>c. date_count_loop vs n = Inr c"
proof (induction vs arbitrary: n)
  case Nil
  show ?case by simp
next
  case (Cons v vs)
  then obtain b where "is_serial_integer (strip v) = Inr b"
    using is_serial_integer_returns [of "strip v"] by auto
  with Cons show ?case by (cases b) (simp_all add: Let_def)
qed

text \<open>The loops count: the number loop never raises; on a sample without an infinite
  value and without a serial-range integer the date loop counts the values that match
  a date grammar.\<close>

lemma number_count_loop_eq:
  "number_count_loop vs n =
     Inr (n + length (filter (\<lambda>v. counts_as_number (strip v) = Inr True) vs))"
proof (induction vs arbitrary: n)
  case Nil
  show ?case by simp
next
  case (Cons v vs)
  obtain b where "counts_as_number (strip v) = Inr b"
    using counts_as_number_returns by blast
  then show ?case by (cases b) (simp_all add: Cons.IH)
qed

lemma date_count_loop_eq:
  assumes "list_all (\<lambda>v. py_float (strip v) \<notin> {Inr PInf, Inr NInf}) vs"
    and "list_all (\<lambda>v. is_serial_integer (strip v) \<noteq> Inr True) vs"
  shows "date_count_loop vs n =
    Inr (n + length (filter (\<lambda>v. matches_date_pattern (strip v)) vs))"
  using assms
proof (induction vs arbitrary: n)
  case Nil
  show ?case by simp
next
  case (Cons v vs)
  from Cons.prems(1) obtain b where b: "is_serial_integer (strip v) = Inr b"
    using is_serial_integer_returns [of "strip v"] by auto
  with Cons.prems(2) have "\<not> b" by auto
  with b Cons show ?case by (simp add: Let_def)
qed

lemma disjoint_filters:
  "(\<And>x. Q x \<Longrightarrow> \<not> P x) \<Longrightarrow> length (filter P xs) + length (filter Q xs) \<le> length xs"
  by (induction xs) auto

text \<open>
  Claim C4, as amended (no double counting of grammar dates): a value that matches a
  date grammar is never counted toward \<open>number_score\<close>; hence for every sample in
  which \<open>float\<close> reads no value as an infinity and no value passes the serial-date
  test (a float that is an integer in the range 1000 to 73050) both scores are
  computed and \<open>date_score + number_score \<le> 1\<close>. The serial-date test is not repeated
  in \<open>_detect_number_format\<close>: a serial-range integer counts toward both scores. On
  a sample with an infinite value \<open>_detect_date_format\<close> raises and there is no
  score.
\<close>

theorem grammar_dates_are_not_counted_as_numbers:
  "(matches_date_pattern s \<longrightarrow> counts_as_number s = Inr False)
   \<and> (list_all (\<lambda>v. py_float (strip v) \<notin> {Inr PInf, Inr NInf}) str_data
      \<and> list_all (\<lambda>v. is_serial_integer (strip v) \<noteq> Inr True) str_data \<longrightarrow>
        (\<exists>d n. u_detect_date_format str_data = Inr d
           \<and> u_detect_number_format str_data = Inr n \<and> d + n \<le> 1))"
proof (intro conjI impI)
  assume "matches_date_pattern s"
  then show "counts_as_number s = Inr False" by (rule number_excludes_grammar_date)
next
  assume "list_all (\<lambda>v. py_float (strip v) \<notin> {Inr PInf, Inr NInf}) str_data
      \<and> list_all (\<lambda>v. is_serial_integer (strip v) \<noteq> Inr True) str_data"
  then have fin: "list_all (\<lambda>v. py_float (strip v) \<notin> {Inr PInf, Inr NInf}) str_data"
    and ns: "list_all (\<lambda>v. is_serial_integer (strip v) \<noteq> Inr True) str_data"
    by simp_all
  define D where "D = length (filter (\<lambda>v. matches_date_pattern (strip v)) str_data)"
  define N where "N = length (filter (\<lambda>v. counts_as_number (strip v) = Inr True) str_data)"
  have le: "D + N \<le> length str_data"
    unfolding D_def N_def
    by (rule disjoint_filters) (auto simp: number_excludes_grammar_date)
  have d: "u_detect_date_format str_data =
      Inr (if length str_data > 0 then of_nat D / of_nat (length str_data) else 0)"
    by (simp add: u_detect_date_format_def date_count_loop_eq [OF fin ns] D_def)
  have n: "u_detect_number_format str_data =
      Inr (if length str_data > 0 then of_nat N / of_nat (length str_data) else 0)"
    by (simp add: u_detect_number_format_def number_count_loop_eq N_def)
  have "(if length str_data > 0 then of_nat D / of_nat (length str_data) else 0)
      + (if length str_data > 0 then of_nat N / of_nat (length str_data) else (0::rat)) \<le> 1"
  proof (cases "length str_data > 0")
    case True
    have "(of_nat D + of_nat N :: rat) \<le> of_nat (length str_data)"
      using le by (metis of_nat_add of_nat_le_iff)
    then have "(of_nat D + of_nat N) / (of_nat (length str_data) :: rat) \<le> 1"
      using True by (simp add: divide_le_eq)
    then show ?thesis using True by (simp add: add_divide_distrib)
  next
    case False
    then show ?thesis by simp
  qed
  with d n show "\<exists>d n. u_detect_date_format str_data = Inr d
           \<and> u_detect_number_format str_data = Inr n \<and> d + n \<le> 1" by blast
qed

text \<open>Witness for C4: in the sample \<open>2023-01-01\<close>, \<open>12.5\<close> the first value matches a
  date grammar and is no number, no value is infinite or passes the serial-date test,
  and the two scores, 1/2 and 1/2, add up to 1.\<close>

theorem grammar_dates_witness:
  "matches_date_pattern (str ''2023-01-01'')
   \<and> counts_as_number (str ''2023-01-01'') = Inr False
   \<and> list_all (\<lambda>v. py_float (strip v) \<notin> {Inr PInf, Inr NInf})
        [str ''2023-01-01'', str ''12.5'']
   \<and> list_all (\<lambda>v. is_serial_integer (strip v) \<noteq> Inr True)
        [str ''2023-01-01'', str ''12.5'']
   \<and> u_detect_date_format [str ''2023-01-01'', str ''12.5''] = Inr (1 / 2)
   \<and> u_detect_number_format [str ''2023-01-01'', str ''12.5''] = Inr (1 / 2)
   \<and> (\<exists>d n. u_detect_date_format [str ''2023-01-01'', str ''12.5''] = Inr d
         \<and> u_detect_number_format [str ''2023-01-01'', str ''12.5''] = Inr n \<and> d + n \<le> 1)"
proof -
  have h1: "matches_date_pattern (str ''2023-01-01'')"
    by (simp add: str_eval re_eval detector_eval)
  have h2: "list_all (\<lambda>v. py_float (strip v) \<notin> {Inr PInf, Inr NInf})
      [str ''2023-01-01'', str ''12.5'']"
    by (simp add: str_eval float_eval)
  have h3: "list_all (\<lambda>v. is_serial_integer (strip v) \<noteq> Inr True)
      [str ''2023-01-01'', str ''12.5'']"
    by (simp add: str_eval float_eval detector_eval)
  have d: "u_detect_date_format [str ''2023-01-01'', str ''12.5''] = Inr (1 / 2)"
    by (simp add: str_eval float_eval re_eval detector_eval Let_def)
  have n: "u_detect_number_format [str ''2023-01-01'', str ''12.5''] = Inr (1 / 2)"
    by (simp add: str_eval float_eval re_eval detector_eval Let_def)
  from grammar_dates_are_not_counted_as_numbers
    [of "str ''2023-01-01''" "[str ''2023-01-01'', str ''12.5'']"] h1 h2 h3 d n
  show ?thesis by blast
qed

text \<open>Counterexample to C4 as stated: the one-value sample \<open>44927\<close> has
  \<open>date_score\<close> 1 and \<open>number_score\<close> 1, the sum is 2.\<close>

theorem serial_integer_counts_twice:
  "u_detect_date_format [str ''44927''] = Inr 1
   \<and> u_detect_number_format [str ''44927''] = Inr 1
   \<and> \<not> ((1::rat) + 1 \<le> 1)"
  by (simp add: str_eval float_eval re_eval detector_eval Let_def)

subsection \<open>The decisive collapse\<close>

text \<open>
  Claim C6 (decisive collapse) fails on a sample with a value that \<open>float\<close> reads as
  an infinity: \<open>int\<close> of an infinity raises \<open>OverflowError\<close>, the \<open>try\<close> around the
  serial-date test handles \<open>ValueError\<close> only, and the exception leaves
  \<open>analyze_column\<close>. No classification is returned for the sample \<open>inf\<close>.
\<close>

theorem infinite_cell_raises_overflow:
  "analyze_column [Some (str ''inf'')] = Inl OverflowError"
  by (simp add: str_eval float_eval re_eval detector_eval Let_def)

text \<open>
  The collapse on every other sample: when the sample is not empty after the null
  cells are discarded and \<open>float\<close> reads no value as an infinity, \<open>analyze_column\<close>
  returns; the type is \<open>date\<close> when \<open>date_score > 0.5\<close>, else \<open>number\<close> when
  \<open>number_score > 0.5\<close>, else \<open>string\<close>; that score is 1, the other two are 0, and
  the confidence is 1.
\<close>

theorem collapse_when_no_infinite_value:
  assumes ne: "dropna cells \<noteq> []"
    and fin: "list_all (\<lambda>v. py_float (strip v) \<notin> {Inr PInf, Inr NInf}) (dropna cells)"
  shows "\<exists>d n. u_detect_date_format (dropna cells) = Inr d
     \<and> u_detect_number_format (dropna cells) = Inr n
     \<and> analyze_column cells =
         Inr (if d > 1 / 2
              then \<lparr>type' = ''date'', confidence = 1,
                     scores = [(''string'', 0), (''number'', 0), (''date'', 1)]\<rparr>
              else if n > 1 / 2
              then \<lparr>type' = ''number'', confidence = 1,
                     scores = [(''string'', 0), (''number'', 1), (''date'', 0)]\<rparr>
              else \<lparr>type' = ''string'', confidence = 1,
                     scores = [(''string'', 1), (''number'', 0), (''date'', 0)]\<rparr>)"
proof -
  from date_count_loop_returns [OF fin]
  obtain c where "date_count_loop (dropna cells) 0 = Inr c" by blast
  then obtain d where d: "u_detect_date_format (dropna cells) = Inr d"
    by (simp add: u_detect_date_format_def)
  obtain n where n: "u_detect_number_format (dropna cells) = Inr n"
    by (simp add: u_detect_number_format_def number_count_loop_eq)
  have "analyze_column cells =
         Inr (if d > 1 / 2
              then \<lparr>type' = ''date'', confidence = 1,
                     scores = [(''string'', 0), (''number'', 0), (''date'', 1)]\<rparr>
              else if n > 1 / 2
              then \<lparr>type' = ''number'', confidence = 1,
                     scores = [(''string'', 0), (''number'', 1), (''date'', 0)]\<rparr>
              else \<lparr>type' = ''string'', confidence = 1,
                     scores = [(''string'', 1), (''number'', 0), (''date'', 0)]\<rparr>)"
    using ne by (simp add: analyze_column_def d n then_exn_def collapse_def py_max_key_def
        score_of_def Let_def)
  with d n show ?thesis by blast
qed

text \<open>Witness: a sample of two dates, a null cell and a number is classified as
  \<open>date\<close> (\<open>date_score\<close> is 2/3).\<close>

theorem collapse_witness:
  "dropna [Some (str ''2023-01-01''), None, Some (str ''12.5''), Some (str ''2023-01-02'')] \<noteq> []
   \<and> analyze_column
         [Some (str ''2023-01-01''), None, Some (str ''12.5''), Some (str ''2023-01-02'')] =
       Inr \<lparr>type' = ''date'', confidence = 1,
             scores = [(''string'', 0), (''number'', 0), (''date'', 1)]\<rparr>"
proof -
  let ?cells = "[Some (str ''2023-01-01''), None, Some (str ''12.5''), Some (str ''2023-01-02'')]"
  have ne: "dropna ?cells \<noteq> []" by (simp add: dropna_def)
  have fin: "list_all (\<lambda>v. py_float (strip v) \<notin> {Inr PInf, Inr NInf}) (dropna ?cells)"
    by (simp add: dropna_def str_eval float_eval)
  have d: "u_detect_date_format (dropna ?cells) = Inr (2 / 3)"
    by (simp add: str_eval float_eval re_eval detector_eval Let_def)
  from collapse_when_no_infinite_value [OF ne fin] d ne show ?thesis by auto
qed

subsection \<open>Samples with an infinite value\<close>

lemma is_serial_integer_raises_OverflowError:
  "is_serial_integer s = Inl e \<Longrightarrow> e = OverflowError"
proof (cases "py_float s")
  case (Inl e')
  then have "e' = ValueError" by (rule py_float_raises_ValueError)
  with Inl show "is_serial_integer s = Inl e \<Longrightarrow> e = OverflowError"
    by (simp add: is_serial_integer_def)
next
  case (Inr x)
  then show "is_serial_integer s = Inl e \<Longrightarrow> e = OverflowError"
    by (cases x) (auto simp: is_serial_integer_def)
qed

lemma is_serial_integer_infinite:
  "py_float s \<in> {Inr PInf, Inr NInf} \<Longrightarrow> is_serial_integer s = Inl OverflowError"
  by (auto simp: is_serial_integer_def)

lemma date_count_loop_raises:
  "\<exists>v\<in>set vs. py_float (strip v) \<in> {Inr PInf, Inr NInf} \<Longrightarrow>
   date_count_loop vs n = Inl OverflowError"
proof (induction vs arbitrary: n)
  case Nil
  then show ?case by simp
next
  case (Cons v vs)
  show ?case
  proof (cases "is_serial_integer (strip v)")
    case (Inl e)
    then have "e = OverflowError" by (rule is_serial_integer_raises_OverflowError)
    with Inl show ?thesis by (simp add: Let_def)
  next
    case (Inr b)
    then have "py_float (strip v) \<notin> {Inr PInf, Inr NInf}"
      using is_serial_integer_infinite [of "strip v"] by auto
    with Cons.prems have "\<exists>v\<in>set vs. py_float (strip v) \<in> {Inr PInf, Inr NInf}" by auto
    then have "date_count_loop vs m = Inl OverflowError" for m by (rule Cons.IH)
    with Inr show ?thesis by (cases b) (simp_all add: Let_def)
  qed
qed

text \<open>
  The failure of C6 on every sample of its kind: when \<open>float\<close> reads some value of the
  sample as an infinity, \<open>_detect_date_format\<close> raises \<open>OverflowError\<close> and so does
  \<open>analyze_column\<close>; no score and no classification is returned.
\<close>

theorem infinite_value_raises_overflow:
  assumes "\<exists>v\<in>set (dropna cells). py_float (strip v) \<in> {Inr PInf, Inr NInf}"
  shows "u_detect_date_format (dropna cells) = Inl OverflowError
    \<and> analyze_column cells = Inl OverflowError"
proof -
  from assms have ne: "dropna cells \<noteq> []" by auto
  have d: "u_detect_date_format (dropna cells) = Inl OverflowError"
    by (simp add: u_detect_date_format_def date_count_loop_raises [OF assms])
  with ne show ?thesis by (simp add: analyze_column_def then_exn_def)
qed

text \<open>Witness: a sample of a date and the text \<open>-Infinity\<close>.\<close>

theorem infinite_value_witness:
  "(\<exists>v\<in>set (dropna [Some (str ''2023-01-01''), Some (str ''-Infinity'')]).
       py_float (strip v) \<in> {Inr PInf, Inr NInf})
   \<and> analyze_column [Some (str ''2023-01-01''), Some (str ''-Infinity'')] = Inl OverflowError"
proof -
  have "py_float (strip (str ''-Infinity'')) = Inr NInf"
    by (simp add: str_eval float_eval)
  then have h: "\<exists>v\<in>set (dropna [Some (str ''2023-01-01''), Some (str ''-Infinity'')]).
       py_float (strip v) \<in> {Inr PInf, Inr NInf}"
    by (simp add: dropna_def)
  from infinite_value_raises_overflow [OF h] h show ?thesis by blast
qed

end
